theory Spec2Isabelle
  imports Main
begin

section \<open>Text and characters\<close>

text \<open>
  A Python \<^verbatim>\<open>str\<close> is modelled as a \<^typ>\<open>string\<close>, one \<^typ>\<open>char\<close> per code point
  (code points 0 to 255).  The four characters that cannot be written inside a string
  literal get names.
\<close>

abbreviation sq :: char where "sq \<equiv> CHR 0x27"
abbreviation dq :: char where "dq \<equiv> CHR 0x22"
abbreviation bsl :: char where "bsl \<equiv> CHR 0x5C"
abbreviation nl :: char where "nl \<equiv> CHR 0x0A"

text \<open>
  \<^verbatim>\<open>s[a:b]\<close> for indices \<open>0 \<le> a\<close>, \<open>0 \<le> b\<close>: Python clamps both ends to the length.
\<close>

definition slice :: "string \<Rightarrow> nat \<Rightarrow> nat \<Rightarrow> string" where
  "slice s a b = drop a (take b s)"

section \<open>The segmenter: \<^verbatim>\<open>_split_comments\<close>\<close>

text \<open>
  The inner loop of a line comment,
  \<^verbatim>\<open>while i < n and sql[i] != "\n": i += 1\<close>.
\<close>

function scan_line :: "string \<Rightarrow> nat \<Rightarrow> nat" where
  "scan_line sql i =
     (if i < length sql \<and> sql ! i \<noteq> nl then scan_line sql (i + 1) else i)"
  by pat_completeness auto
termination
  by (relation "measure (\<lambda>(sql, i). length sql - i)") auto

text \<open>
  The inner loop of a block comment,
  \<^verbatim>\<open>while i < n - 1 and sql[i : i + 2] != "*/": i += 1\<close>.
  It is only reached with \<open>n \<ge> 2\<close>, so \<open>n - 1\<close> is the integer of the source.
\<close>

function scan_block :: "string \<Rightarrow> nat \<Rightarrow> nat" where
  "scan_block sql i =
     (if i < length sql - 1 \<and> slice sql i (i + 2) \<noteq> ''*/''
      then scan_block sql (i + 1) else i)"
  by pat_completeness auto
termination
  by (relation "measure (\<lambda>(sql, i). length sql - i)") auto

declare scan_line.simps [simp del] scan_block.simps [simp del]

lemma scan_line_ge: "i \<le> scan_line sql i"
proof (induction sql i rule: scan_line.induct)
  case (1 sql i)
  show ?case
  proof (cases "i < length sql \<and> sql ! i \<noteq> nl")
    case True
    with 1 have "i + 1 \<le> scan_line sql (i + 1)" by blast
    moreover from True have "scan_line sql i = scan_line sql (i + 1)"
      by (subst scan_line.simps) simp
    ultimately show ?thesis by linarith
  next
    case False
    then have "scan_line sql i = i" by (subst scan_line.simps) auto
    then show ?thesis by linarith
  qed
qed

lemma scan_block_ge: "i \<le> scan_block sql i"
proof (induction sql i rule: scan_block.induct)
  case (1 sql i)
  show ?case
  proof (cases "i < length sql - 1 \<and> slice sql i (i + 2) \<noteq> ''*/''")
    case True
    with 1 have "i + 1 \<le> scan_block sql (i + 1)" by blast
    moreover from True have "scan_block sql i = scan_block sql (i + 1)"
      by (subst scan_block.simps) simp
    ultimately show ?thesis by linarith
  next
    case False
    then have "scan_block sql i = i" by (subst scan_block.simps) auto
    then show ?thesis by linarith
  qed
qed

text \<open>The position after a line comment that starts at \<open>i\<close> (lines 54 to 58).\<close>

definition line_end :: "string \<Rightarrow> nat \<Rightarrow> nat" where
  "line_end sql i =
     (let j = scan_line sql (i + 2) in if j < length sql then j + 1 else j)"

text \<open>The position after a block comment that starts at \<open>i\<close> (lines 66 to 69).\<close>

definition block_end :: "string \<Rightarrow> nat \<Rightarrow> nat" where
  "block_end sql i =
     (let j = scan_block sql (i + 2) in if j < length sql - 1 then j + 2 else length sql)"

lemma line_end_gt: "i < line_end sql i"
proof -
  have "i + 2 \<le> scan_line sql (i + 2)" by (rule scan_line_ge)
  then show ?thesis unfolding line_end_def Let_def by (simp split: if_split)
qed

lemma block_end_gt: "i + 2 \<le> length sql \<Longrightarrow> i < block_end sql i"
proof -
  assume "i + 2 \<le> length sql"
  moreover have "i + 2 \<le> scan_block sql (i + 2)" by (rule scan_block_ge)
  ultimately show ?thesis unfolding block_end_def Let_def by (simp split: if_split)
qed

text \<open>
  \<^verbatim>\<open>if i > code_start: segments.append((False, sql[code_start:i]))\<close>
\<close>

definition flush_code :: "string \<Rightarrow> nat \<Rightarrow> nat \<Rightarrow> (bool \<times> string) list \<Rightarrow> (bool \<times> string) list" where
  "flush_code sql code_start i segments =
     (if i > code_start then segments @ [(False, slice sql code_start i)] else segments)"

text \<open>
  The loop variables \<open>i\<close>, \<open>in_single\<close>, \<open>in_double\<close>, \<open>code_start\<close> and
  \<open>segments\<close>, in this order.
\<close>

type_synonym seg_state = "nat \<times> bool \<times> bool \<times> nat \<times> (bool \<times> string) list"

text \<open>
  One pass through the body of \<^verbatim>\<open>while i < n\<close> (lines 36 to 77), entered with
  \<open>i < n\<close>.  Every \<^verbatim>\<open>continue\<close> and the fall-through end of the body is one branch.
\<close>

definition split_step :: "string \<Rightarrow> seg_state \<Rightarrow> seg_state" where
  "split_step sql st =
     (case st of (i, in_single, in_double, code_start, segments) \<Rightarrow>
        if in_single then
          if sql ! i = sq \<and> (i + 1 \<ge> length sql \<or> sql ! (i + 1) \<noteq> sq)
          then (i + 1, False, in_double, code_start, segments)
          else if sql ! i = bsl
          then (i + 2, in_single, in_double, code_start, segments)
          else (i + 1, in_single, in_double, code_start, segments)
        else if in_double then
          if sql ! i = dq \<and> (i + 1 \<ge> length sql \<or> sql ! (i + 1) \<noteq> dq)
          then (i + 1, in_single, False, code_start, segments)
          else if sql ! i = bsl
          then (i + 2, in_single, in_double, code_start, segments)
          else (i + 1, in_single, in_double, code_start, segments)
        else if i + 2 \<le> length sql \<and> slice sql i (i + 2) = ''--'' then
          (line_end sql i, in_single, in_double, line_end sql i,
           flush_code sql code_start i segments @ [(True, slice sql i (line_end sql i))])
        else if i + 2 \<le> length sql \<and> slice sql i (i + 2) = ''/*'' then
          (block_end sql i, in_single, in_double, block_end sql i,
           flush_code sql code_start i segments @ [(True, slice sql i (block_end sql i))])
        else if sql ! i = sq \<and> \<not> in_double
        then (i + 1, True, in_double, code_start, segments)
        else if sql ! i = dq \<and> \<not> in_single
        then (i + 1, in_single, True, code_start, segments)
        else (i + 1, in_single, in_double, code_start, segments))"

lemma split_step_advances: "fst st < fst (split_step sql st)"
proof -
  obtain i in_single in_double code_start segments
    where st: "st = (i, in_single, in_double, code_start, segments)"
    by (cases st) auto
  have "i < line_end sql i" by (rule line_end_gt)
  moreover have "i + 2 \<le> length sql \<Longrightarrow> i < block_end sql i" by (rule block_end_gt)
  ultimately show ?thesis
    unfolding st split_step_def by (simp del: One_nat_def)
qed

text \<open>The loop \<^verbatim>\<open>while i < n\<close>: it returns the loop variables at exit.\<close>

function split_loop :: "string \<Rightarrow> seg_state \<Rightarrow> seg_state" where
  "split_loop sql st =
     (if fst st < length sql then split_loop sql (split_step sql st) else st)"
  by pat_completeness auto
termination
proof (relation "measure (\<lambda>(sql, st). length sql - fst st)", goal_cases)
  case 1
  show ?case by simp
next
  case (2 sql st)
  then show ?case using split_step_advances [of st sql] by simp
qed

declare split_loop.simps [simp del]

text \<open>
  \<^verbatim>\<open>_split_comments\<close>: the initialisation, the loop, and lines 78 to 80 after it.
\<close>

definition split_comments :: "string \<Rightarrow> (bool \<times> string) list" where
  "split_comments sql =
     (case split_loop sql (0, False, False, 0, []) of
        (i, in_single, in_double, code_start, segments) \<Rightarrow>
          if code_start < length sql
          then segments @ [(False, slice sql code_start (length sql))]
          else segments)"

text \<open>
  The loop invariant of the segmenter: the segments emitted so far spell the input up to
  \<open>code_start\<close>, which never runs ahead of \<open>i\<close> nor past the end.
\<close>

definition seg_inv :: "string \<Rightarrow> seg_state \<Rightarrow> bool" where
  "seg_inv sql st =
     (case st of (i, in_single, in_double, code_start, segments) \<Rightarrow>
        code_start \<le> i \<and> code_start \<le> length sql \<and>
        concat (map snd segments) = take code_start sql)"

section \<open>Characters as Python classifies them\<close>

text \<open>
  The code point of a character.  The classes below are those of Python 3 for text
  (\<^verbatim>\<open>str\<close>) patterns, restricted to the code points 0 to 255: \<^verbatim>\<open>\s\<close> and
  \<^verbatim>\<open>str.isspace\<close>, \<^verbatim>\<open>\d\<close>, \<^verbatim>\<open>str.isdigit\<close>, and \<^verbatim>\<open>\w\<close>.
\<close>

definition code :: "char \<Rightarrow> nat" where
  "code c = of_char c"

definition is_space :: "char \<Rightarrow> bool" where
  "is_space c =
     (let n = code c in (9 \<le> n \<and> n \<le> 13) \<or> (28 \<le> n \<and> n \<le> 32) \<or> n = 133 \<or> n = 160)"

definition is_decimal :: "char \<Rightarrow> bool" where
  "is_decimal c = (let n = code c in 48 \<le> n \<and> n \<le> 57)"

definition is_digit :: "char \<Rightarrow> bool" where
  "is_digit c = (let n = code c in (48 \<le> n \<and> n \<le> 57) \<or> n = 178 \<or> n = 179 \<or> n = 185)"

definition is_word :: "char \<Rightarrow> bool" where
  "is_word c =
     (let n = code c in
        (48 \<le> n \<and> n \<le> 57) \<or> (65 \<le> n \<and> n \<le> 90) \<or> n = 95 \<or> (97 \<le> n \<and> n \<le> 122) \<or>
        n = 170 \<or> n = 178 \<or> n = 179 \<or> n = 181 \<or> n = 185 \<or> n = 186 \<or>
        (188 \<le> n \<and> n \<le> 190) \<or> (192 \<le> n \<and> n \<le> 214) \<or> (216 \<le> n \<and> n \<le> 246) \<or>
        (248 \<le> n \<and> n \<le> 255))"

text \<open>
  Case folding as \<^verbatim>\<open>re.IGNORECASE\<close> uses it: below code point 256 only the ASCII
  letters have a partner of the other case that the patterns of this program can mention.
\<close>

definition lower_ascii :: "char \<Rightarrow> char" where
  "lower_ascii c = (let n = code c in if 65 \<le> n \<and> n \<le> 90 then char_of (n + 32) else c)"

definition swapcase :: "char \<Rightarrow> char" where
  "swapcase c =
     (let n = code c in
        if 65 \<le> n \<and> n \<le> 90 then char_of (n + 32)
        else if 97 \<le> n \<and> n \<le> 122 then char_of (n - 32) else c)"

text \<open>
  \<^verbatim>\<open>str.upper\<close>, one character at a time: the sharp s becomes \<^verbatim>\<open>SS\<close>; the micro sign
  and the y with diaeresis have their capitals outside the range and are left as they
  are (the program only compares upper-cased words with ASCII keywords, and these two
  stay outside ASCII either way).
\<close>

definition upper_chr :: "char \<Rightarrow> string" where
  "upper_chr c =
     (let n = code c in
        if n = 223 then ''SS''
        else if (97 \<le> n \<and> n \<le> 122) \<or> (224 \<le> n \<and> n \<le> 246) \<or> (248 \<le> n \<and> n \<le> 254)
        then [char_of (n - 32)] else [c])"

definition upper :: "string \<Rightarrow> string" where
  "upper s = concat (map upper_chr s)"

text \<open>
  \<^verbatim>\<open>str.lower\<close>; the program only compares its result with \<^verbatim>\<open>boolean\<close> and
  \<^verbatim>\<open>bool\<close>, for which the ASCII letters decide.
\<close>

definition lower :: "string \<Rightarrow> string" where
  "lower s = map lower_ascii s"

text \<open>\<^verbatim>\<open>str.strip()\<close> removes white space at both ends.\<close>

definition strip :: "string \<Rightarrow> string" where
  "strip s = rev (dropWhile is_space (rev (dropWhile is_space s)))"

text \<open>\<^verbatim>\<open>str(i)\<close> for a natural number.\<close>

fun str_nat :: "nat \<Rightarrow> string" where
  "str_nat n =
     (if n < 10 then [char_of (48 + n)] else str_nat (n div 10) @ [char_of (48 + n mod 10)])"

declare str_nat.simps [simp del]

text \<open>
  The tables of these functions on the ASCII characters (tab, line feed, carriage
  return and the printable ones), derived from the definitions; evaluation uses them.
\<close>

lemma is_space_tab [code]:
  "is_space (CHR 0x09) = True" "is_space (CHR 0x0A) = True" "is_space (CHR 0x0D) = True"
  "is_space (CHR '' '') = True" "is_space (CHR ''!'') = False" "is_space (CHR 0x22) = False"
  "is_space (CHR ''#'') = False" "is_space (CHR ''$'') = False" "is_space (CHR ''%'') = False"
  "is_space (CHR ''&'') = False" "is_space (CHR 0x27) = False" "is_space (CHR ''('') = False"
  "is_space (CHR '')'') = False" "is_space (CHR ''*'') = False" "is_space (CHR ''+'') = False"
  "is_space (CHR '','') = False" "is_space (CHR ''-'') = False" "is_space (CHR ''.'') = False"
  "is_space (CHR ''/'') = False" "is_space (CHR ''0'') = False" "is_space (CHR ''1'') = False"
  "is_space (CHR ''2'') = False" "is_space (CHR ''3'') = False" "is_space (CHR ''4'') = False"
  "is_space (CHR ''5'') = False" "is_space (CHR ''6'') = False" "is_space (CHR ''7'') = False"
  "is_space (CHR ''8'') = False" "is_space (CHR ''9'') = False" "is_space (CHR '':'') = False"
  "is_space (CHR '';'') = False" "is_space (CHR ''<'') = False" "is_space (CHR ''='') = False"
  "is_space (CHR ''>'') = False" "is_space (CHR ''?'') = False" "is_space (CHR ''@'') = False"
  "is_space (CHR ''A'') = False" "is_space (CHR ''B'') = False" "is_space (CHR ''C'') = False"
  "is_space (CHR ''D'') = False" "is_space (CHR ''E'') = False" "is_space (CHR ''F'') = False"
  "is_space (CHR ''G'') = False" "is_space (CHR ''H'') = False" "is_space (CHR ''I'') = False"
  "is_space (CHR ''J'') = False" "is_space (CHR ''K'') = False" "is_space (CHR ''L'') = False"
  "is_space (CHR ''M'') = False" "is_space (CHR ''N'') = False" "is_space (CHR ''O'') = False"
  "is_space (CHR ''P'') = False" "is_space (CHR ''Q'') = False" "is_space (CHR ''R'') = False"
  "is_space (CHR ''S'') = False" "is_space (CHR ''T'') = False" "is_space (CHR ''U'') = False"
  "is_space (CHR ''V'') = False" "is_space (CHR ''W'') = False" "is_space (CHR ''X'') = False"
  "is_space (CHR ''Y'') = False" "is_space (CHR ''Z'') = False" "is_space (CHR ''['') = False"
  "is_space (CHR 0x5C) = False" "is_space (CHR '']'') = False" "is_space (CHR ''^'') = False"
  "is_space (CHR ''_'') = False" "is_space (CHR ''`'') = False" "is_space (CHR ''a'') = False"
  "is_space (CHR ''b'') = False" "is_space (CHR ''c'') = False" "is_space (CHR ''d'') = False"
  "is_space (CHR ''e'') = False" "is_space (CHR ''f'') = False" "is_space (CHR ''g'') = False"
  "is_space (CHR ''h'') = False" "is_space (CHR ''i'') = False" "is_space (CHR ''j'') = False"
  "is_space (CHR ''k'') = False" "is_space (CHR ''l'') = False" "is_space (CHR ''m'') = False"
  "is_space (CHR ''n'') = False" "is_space (CHR ''o'') = False" "is_space (CHR ''p'') = False"
  "is_space (CHR ''q'') = False" "is_space (CHR ''r'') = False" "is_space (CHR ''s'') = False"
  "is_space (CHR ''t'') = False" "is_space (CHR ''u'') = False" "is_space (CHR ''v'') = False"
  "is_space (CHR ''w'') = False" "is_space (CHR ''x'') = False" "is_space (CHR ''y'') = False"
  "is_space (CHR ''z'') = False" "is_space (CHR ''{'') = False" "is_space (CHR ''|'') = False"
  "is_space (CHR ''}'') = False" "is_space (CHR ''~'') = False"
  by (simp_all add: is_space_def code_def)

lemma is_decimal_tab [code]:
  "is_decimal (CHR 0x09) = False" "is_decimal (CHR 0x0A) = False" "is_decimal (CHR 0x0D) = False"
  "is_decimal (CHR '' '') = False" "is_decimal (CHR ''!'') = False" "is_decimal (CHR 0x22) = False"
  "is_decimal (CHR ''#'') = False" "is_decimal (CHR ''$'') = False" "is_decimal (CHR ''%'') = False"
  "is_decimal (CHR ''&'') = False" "is_decimal (CHR 0x27) = False" "is_decimal (CHR ''('') = False"
  "is_decimal (CHR '')'') = False" "is_decimal (CHR ''*'') = False" "is_decimal (CHR ''+'') = False"
  "is_decimal (CHR '','') = False" "is_decimal (CHR ''-'') = False" "is_decimal (CHR ''.'') = False"
  "is_decimal (CHR ''/'') = False" "is_decimal (CHR ''0'') = True" "is_decimal (CHR ''1'') = True"
  "is_decimal (CHR ''2'') = True" "is_decimal (CHR ''3'') = True" "is_decimal (CHR ''4'') = True"
  "is_decimal (CHR ''5'') = True" "is_decimal (CHR ''6'') = True" "is_decimal (CHR ''7'') = True"
  "is_decimal (CHR ''8'') = True" "is_decimal (CHR ''9'') = True" "is_decimal (CHR '':'') = False"
  "is_decimal (CHR '';'') = False" "is_decimal (CHR ''<'') = False" "is_decimal (CHR ''='') = False"
  "is_decimal (CHR ''>'') = False" "is_decimal (CHR ''?'') = False" "is_decimal (CHR ''@'') = False"
  "is_decimal (CHR ''A'') = False" "is_decimal (CHR ''B'') = False" "is_decimal (CHR ''C'') = False"
  "is_decimal (CHR ''D'') = False" "is_decimal (CHR ''E'') = False" "is_decimal (CHR ''F'') = False"
  "is_decimal (CHR ''G'') = False" "is_decimal (CHR ''H'') = False" "is_decimal (CHR ''I'') = False"
  "is_decimal (CHR ''J'') = False" "is_decimal (CHR ''K'') = False" "is_decimal (CHR ''L'') = False"
  "is_decimal (CHR ''M'') = False" "is_decimal (CHR ''N'') = False" "is_decimal (CHR ''O'') = False"
  "is_decimal (CHR ''P'') = False" "is_decimal (CHR ''Q'') = False" "is_decimal (CHR ''R'') = False"
  "is_decimal (CHR ''S'') = False" "is_decimal (CHR ''T'') = False" "is_decimal (CHR ''U'') = False"
  "is_decimal (CHR ''V'') = False" "is_decimal (CHR ''W'') = False" "is_decimal (CHR ''X'') = False"
  "is_decimal (CHR ''Y'') = False" "is_decimal (CHR ''Z'') = False" "is_decimal (CHR ''['') = False"
  "is_decimal (CHR 0x5C) = False" "is_decimal (CHR '']'') = False" "is_decimal (CHR ''^'') = False"
  "is_decimal (CHR ''_'') = False" "is_decimal (CHR ''`'') = False" "is_decimal (CHR ''a'') = False"
  "is_decimal (CHR ''b'') = False" "is_decimal (CHR ''c'') = False" "is_decimal (CHR ''d'') = False"
  "is_decimal (CHR ''e'') = False" "is_decimal (CHR ''f'') = False" "is_decimal (CHR ''g'') = False"
  "is_decimal (CHR ''h'') = False" "is_decimal (CHR ''i'') = False" "is_decimal (CHR ''j'') = False"
  "is_decimal (CHR ''k'') = False" "is_decimal (CHR ''l'') = False" "is_decimal (CHR ''m'') = False"
  "is_decimal (CHR ''n'') = False" "is_decimal (CHR ''o'') = False" "is_decimal (CHR ''p'') = False"
  "is_decimal (CHR ''q'') = False" "is_decimal (CHR ''r'') = False" "is_decimal (CHR ''s'') = False"
  "is_decimal (CHR ''t'') = False" "is_decimal (CHR ''u'') = False" "is_decimal (CHR ''v'') = False"
  "is_decimal (CHR ''w'') = False" "is_decimal (CHR ''x'') = False" "is_decimal (CHR ''y'') = False"
  "is_decimal (CHR ''z'') = False" "is_decimal (CHR ''{'') = False" "is_decimal (CHR ''|'') = False"
  "is_decimal (CHR ''}'') = False" "is_decimal (CHR ''~'') = False"
  by (simp_all add: is_decimal_def code_def)

lemma is_digit_tab [code]:
  "is_digit (CHR 0x09) = False" "is_digit (CHR 0x0A) = False" "is_digit (CHR 0x0D) = False"
  "is_digit (CHR '' '') = False" "is_digit (CHR ''!'') = False" "is_digit (CHR 0x22) = False"
  "is_digit (CHR ''#'') = False" "is_digit (CHR ''$'') = False" "is_digit (CHR ''%'') = False"
  "is_digit (CHR ''&'') = False" "is_digit (CHR 0x27) = False" "is_digit (CHR ''('') = False"
  "is_digit (CHR '')'') = False" "is_digit (CHR ''*'') = False" "is_digit (CHR ''+'') = False"
  "is_digit (CHR '','') = False" "is_digit (CHR ''-'') = False" "is_digit (CHR ''.'') = False"
  "is_digit (CHR ''/'') = False" "is_digit (CHR ''0'') = True" "is_digit (CHR ''1'') = True"
  "is_digit (CHR ''2'') = True" "is_digit (CHR ''3'') = True" "is_digit (CHR ''4'') = True"
  "is_digit (CHR ''5'') = True" "is_digit (CHR ''6'') = True" "is_digit (CHR ''7'') = True"
  "is_digit (CHR ''8'') = True" "is_digit (CHR ''9'') = True" "is_digit (CHR '':'') = False"
  "is_digit (CHR '';'') = False" "is_digit (CHR ''<'') = False" "is_digit (CHR ''='') = False"
  "is_digit (CHR ''>'') = False" "is_digit (CHR ''?'') = False" "is_digit (CHR ''@'') = False"
  "is_digit (CHR ''A'') = False" "is_digit (CHR ''B'') = False" "is_digit (CHR ''C'') = False"
  "is_digit (CHR ''D'') = False" "is_digit (CHR ''E'') = False" "is_digit (CHR ''F'') = False"
  "is_digit (CHR ''G'') = False" "is_digit (CHR ''H'') = False" "is_digit (CHR ''I'') = False"
  "is_digit (CHR ''J'') = False" "is_digit (CHR ''K'') = False" "is_digit (CHR ''L'') = False"
  "is_digit (CHR ''M'') = False" "is_digit (CHR ''N'') = False" "is_digit (CHR ''O'') = False"
  "is_digit (CHR ''P'') = False" "is_digit (CHR ''Q'') = False" "is_digit (CHR ''R'') = False"
  "is_digit (CHR ''S'') = False" "is_digit (CHR ''T'') = False" "is_digit (CHR ''U'') = False"
  "is_digit (CHR ''V'') = False" "is_digit (CHR ''W'') = False" "is_digit (CHR ''X'') = False"
  "is_digit (CHR ''Y'') = False" "is_digit (CHR ''Z'') = False" "is_digit (CHR ''['') = False"
  "is_digit (CHR 0x5C) = False" "is_digit (CHR '']'') = False" "is_digit (CHR ''^'') = False"
  "is_digit (CHR ''_'') = False" "is_digit (CHR ''`'') = False" "is_digit (CHR ''a'') = False"
  "is_digit (CHR ''b'') = False" "is_digit (CHR ''c'') = False" "is_digit (CHR ''d'') = False"
  "is_digit (CHR ''e'') = False" "is_digit (CHR ''f'') = False" "is_digit (CHR ''g'') = False"
  "is_digit (CHR ''h'') = False" "is_digit (CHR ''i'') = False" "is_digit (CHR ''j'') = False"
  "is_digit (CHR ''k'') = False" "is_digit (CHR ''l'') = False" "is_digit (CHR ''m'') = False"
  "is_digit (CHR ''n'') = False" "is_digit (CHR ''o'') = False" "is_digit (CHR ''p'') = False"
  "is_digit (CHR ''q'') = False" "is_digit (CHR ''r'') = False" "is_digit (CHR ''s'') = False"
  "is_digit (CHR ''t'') = False" "is_digit (CHR ''u'') = False" "is_digit (CHR ''v'') = False"
  "is_digit (CHR ''w'') = False" "is_digit (CHR ''x'') = False" "is_digit (CHR ''y'') = False"
  "is_digit (CHR ''z'') = False" "is_digit (CHR ''{'') = False" "is_digit (CHR ''|'') = False"
  "is_digit (CHR ''}'') = False" "is_digit (CHR ''~'') = False"
  by (simp_all add: is_digit_def code_def)

lemma is_word_tab [code]:
  "is_word (CHR 0x09) = False" "is_word (CHR 0x0A) = False" "is_word (CHR 0x0D) = False"
  "is_word (CHR '' '') = False" "is_word (CHR ''!'') = False" "is_word (CHR 0x22) = False"
  "is_word (CHR ''#'') = False" "is_word (CHR ''$'') = False" "is_word (CHR ''%'') = False"
  "is_word (CHR ''&'') = False" "is_word (CHR 0x27) = False" "is_word (CHR ''('') = False"
  "is_word (CHR '')'') = False" "is_word (CHR ''*'') = False" "is_word (CHR ''+'') = False"
  "is_word (CHR '','') = False" "is_word (CHR ''-'') = False" "is_word (CHR ''.'') = False"
  "is_word (CHR ''/'') = False" "is_word (CHR ''0'') = True" "is_word (CHR ''1'') = True"
  "is_word (CHR ''2'') = True" "is_word (CHR ''3'') = True" "is_word (CHR ''4'') = True"
  "is_word (CHR ''5'') = True" "is_word (CHR ''6'') = True" "is_word (CHR ''7'') = True"
  "is_word (CHR ''8'') = True" "is_word (CHR ''9'') = True" "is_word (CHR '':'') = False"
  "is_word (CHR '';'') = False" "is_word (CHR ''<'') = False" "is_word (CHR ''='') = False"
  "is_word (CHR ''>'') = False" "is_word (CHR ''?'') = False" "is_word (CHR ''@'') = False"
  "is_word (CHR ''A'') = True" "is_word (CHR ''B'') = True" "is_word (CHR ''C'') = True"
  "is_word (CHR ''D'') = True" "is_word (CHR ''E'') = True" "is_word (CHR ''F'') = True"
  "is_word (CHR ''G'') = True" "is_word (CHR ''H'') = True" "is_word (CHR ''I'') = True"
  "is_word (CHR ''J'') = True" "is_word (CHR ''K'') = True" "is_word (CHR ''L'') = True"
  "is_word (CHR ''M'') = True" "is_word (CHR ''N'') = True" "is_word (CHR ''O'') = True"
  "is_word (CHR ''P'') = True" "is_word (CHR ''Q'') = True" "is_word (CHR ''R'') = True"
  "is_word (CHR ''S'') = True" "is_word (CHR ''T'') = True" "is_word (CHR ''U'') = True"
  "is_word (CHR ''V'') = True" "is_word (CHR ''W'') = True" "is_word (CHR ''X'') = True"
  "is_word (CHR ''Y'') = True" "is_word (CHR ''Z'') = True" "is_word (CHR ''['') = False"
  "is_word (CHR 0x5C) = False" "is_word (CHR '']'') = False" "is_word (CHR ''^'') = False"
  "is_word (CHR ''_'') = True" "is_word (CHR ''`'') = False" "is_word (CHR ''a'') = True"
  "is_word (CHR ''b'') = True" "is_word (CHR ''c'') = True" "is_word (CHR ''d'') = True"
  "is_word (CHR ''e'') = True" "is_word (CHR ''f'') = True" "is_word (CHR ''g'') = True"
  "is_word (CHR ''h'') = True" "is_word (CHR ''i'') = True" "is_word (CHR ''j'') = True"
  "is_word (CHR ''k'') = True" "is_word (CHR ''l'') = True" "is_word (CHR ''m'') = True"
  "is_word (CHR ''n'') = True" "is_word (CHR ''o'') = True" "is_word (CHR ''p'') = True"
  "is_word (CHR ''q'') = True" "is_word (CHR ''r'') = True" "is_word (CHR ''s'') = True"
  "is_word (CHR ''t'') = True" "is_word (CHR ''u'') = True" "is_word (CHR ''v'') = True"
  "is_word (CHR ''w'') = True" "is_word (CHR ''x'') = True" "is_word (CHR ''y'') = True"
  "is_word (CHR ''z'') = True" "is_word (CHR ''{'') = False" "is_word (CHR ''|'') = False"
  "is_word (CHR ''}'') = False" "is_word (CHR ''~'') = False"
  by (simp_all add: is_word_def code_def)

lemma lower_ascii_tab [code]:
  "lower_ascii (CHR 0x09) = CHR 0x09" "lower_ascii (CHR 0x0A) = CHR 0x0A"
  "lower_ascii (CHR 0x0D) = CHR 0x0D" "lower_ascii (CHR '' '') = CHR '' ''"
  "lower_ascii (CHR ''!'') = CHR ''!''" "lower_ascii (CHR 0x22) = CHR 0x22"
  "lower_ascii (CHR ''#'') = CHR ''#''" "lower_ascii (CHR ''$'') = CHR ''$''"
  "lower_ascii (CHR ''%'') = CHR ''%''" "lower_ascii (CHR ''&'') = CHR ''&''"
  "lower_ascii (CHR 0x27) = CHR 0x27" "lower_ascii (CHR ''('') = CHR ''(''"
  "lower_ascii (CHR '')'') = CHR '')''" "lower_ascii (CHR ''*'') = CHR ''*''"
  "lower_ascii (CHR ''+'') = CHR ''+''" "lower_ascii (CHR '','') = CHR '',''"
  "lower_ascii (CHR ''-'') = CHR ''-''" "lower_ascii (CHR ''.'') = CHR ''.''"
  "lower_ascii (CHR ''/'') = CHR ''/''" "lower_ascii (CHR ''0'') = CHR ''0''"
  "lower_ascii (CHR ''1'') = CHR ''1''" "lower_ascii (CHR ''2'') = CHR ''2''"
  "lower_ascii (CHR ''3'') = CHR ''3''" "lower_ascii (CHR ''4'') = CHR ''4''"
  "lower_ascii (CHR ''5'') = CHR ''5''" "lower_ascii (CHR ''6'') = CHR ''6''"
  "lower_ascii (CHR ''7'') = CHR ''7''" "lower_ascii (CHR ''8'') = CHR ''8''"
  "lower_ascii (CHR ''9'') = CHR ''9''" "lower_ascii (CHR '':'') = CHR '':''"
  "lower_ascii (CHR '';'') = CHR '';''" "lower_ascii (CHR ''<'') = CHR ''<''"
  "lower_ascii (CHR ''='') = CHR ''=''" "lower_ascii (CHR ''>'') = CHR ''>''"
  "lower_ascii (CHR ''?'') = CHR ''?''" "lower_ascii (CHR ''@'') = CHR ''@''"
  "lower_ascii (CHR ''A'') = CHR ''a''" "lower_ascii (CHR ''B'') = CHR ''b''"
  "lower_ascii (CHR ''C'') = CHR ''c''" "lower_ascii (CHR ''D'') = CHR ''d''"
  "lower_ascii (CHR ''E'') = CHR ''e''" "lower_ascii (CHR ''F'') = CHR ''f''"
  "lower_ascii (CHR ''G'') = CHR ''g''" "lower_ascii (CHR ''H'') = CHR ''h''"
  "lower_ascii (CHR ''I'') = CHR ''i''" "lower_ascii (CHR ''J'') = CHR ''j''"
  "lower_ascii (CHR ''K'') = CHR ''k''" "lower_ascii (CHR ''L'') = CHR ''l''"
  "lower_ascii (CHR ''M'') = CHR ''m''" "lower_ascii (CHR ''N'') = CHR ''n''"
  "lower_ascii (CHR ''O'') = CHR ''o''" "lower_ascii (CHR ''P'') = CHR ''p''"
  "lower_ascii (CHR ''Q'') = CHR ''q''" "lower_ascii (CHR ''R'') = CHR ''r''"
  "lower_ascii (CHR ''S'') = CHR ''s''" "lower_ascii (CHR ''T'') = CHR ''t''"
  "lower_ascii (CHR ''U'') = CHR ''u''" "lower_ascii (CHR ''V'') = CHR ''v''"
  "lower_ascii (CHR ''W'') = CHR ''w''" "lower_ascii (CHR ''X'') = CHR ''x''"
  "lower_ascii (CHR ''Y'') = CHR ''y''" "lower_ascii (CHR ''Z'') = CHR ''z''"
  "lower_ascii (CHR ''['') = CHR ''[''" "lower_ascii (CHR 0x5C) = CHR 0x5C"
  "lower_ascii (CHR '']'') = CHR '']''" "lower_ascii (CHR ''^'') = CHR ''^''"
  "lower_ascii (CHR ''_'') = CHR ''_''" "lower_ascii (CHR ''`'') = CHR ''`''"
  "lower_ascii (CHR ''a'') = CHR ''a''" "lower_ascii (CHR ''b'') = CHR ''b''"
  "lower_ascii (CHR ''c'') = CHR ''c''" "lower_ascii (CHR ''d'') = CHR ''d''"
  "lower_ascii (CHR ''e'') = CHR ''e''" "lower_ascii (CHR ''f'') = CHR ''f''"
  "lower_ascii (CHR ''g'') = CHR ''g''" "lower_ascii (CHR ''h'') = CHR ''h''"
  "lower_ascii (CHR ''i'') = CHR ''i''" "lower_ascii (CHR ''j'') = CHR ''j''"
  "lower_ascii (CHR ''k'') = CHR ''k''" "lower_ascii (CHR ''l'') = CHR ''l''"
  "lower_ascii (CHR ''m'') = CHR ''m''" "lower_ascii (CHR ''n'') = CHR ''n''"
  "lower_ascii (CHR ''o'') = CHR ''o''" "lower_ascii (CHR ''p'') = CHR ''p''"
  "lower_ascii (CHR ''q'') = CHR ''q''" "lower_ascii (CHR ''r'') = CHR ''r''"
  "lower_ascii (CHR ''s'') = CHR ''s''" "lower_ascii (CHR ''t'') = CHR ''t''"
  "lower_ascii (CHR ''u'') = CHR ''u''" "lower_ascii (CHR ''v'') = CHR ''v''"
  "lower_ascii (CHR ''w'') = CHR ''w''" "lower_ascii (CHR ''x'') = CHR ''x''"
  "lower_ascii (CHR ''y'') = CHR ''y''" "lower_ascii (CHR ''z'') = CHR ''z''"
  "lower_ascii (CHR ''{'') = CHR ''{''" "lower_ascii (CHR ''|'') = CHR ''|''"
  "lower_ascii (CHR ''}'') = CHR ''}''" "lower_ascii (CHR ''~'') = CHR ''~''"
  by code_simp+

lemma swapcase_tab [code]:
  "swapcase (CHR 0x09) = CHR 0x09" "swapcase (CHR 0x0A) = CHR 0x0A"
  "swapcase (CHR 0x0D) = CHR 0x0D" "swapcase (CHR '' '') = CHR '' ''"
  "swapcase (CHR ''!'') = CHR ''!''" "swapcase (CHR 0x22) = CHR 0x22"
  "swapcase (CHR ''#'') = CHR ''#''" "swapcase (CHR ''$'') = CHR ''$''"
  "swapcase (CHR ''%'') = CHR ''%''" "swapcase (CHR ''&'') = CHR ''&''"
  "swapcase (CHR 0x27) = CHR 0x27" "swapcase (CHR ''('') = CHR ''(''"
  "swapcase (CHR '')'') = CHR '')''" "swapcase (CHR ''*'') = CHR ''*''"
  "swapcase (CHR ''+'') = CHR ''+''" "swapcase (CHR '','') = CHR '',''"
  "swapcase (CHR ''-'') = CHR ''-''" "swapcase (CHR ''.'') = CHR ''.''"
  "swapcase (CHR ''/'') = CHR ''/''" "swapcase (CHR ''0'') = CHR ''0''"
  "swapcase (CHR ''1'') = CHR ''1''" "swapcase (CHR ''2'') = CHR ''2''"
  "swapcase (CHR ''3'') = CHR ''3''" "swapcase (CHR ''4'') = CHR ''4''"
  "swapcase (CHR ''5'') = CHR ''5''" "swapcase (CHR ''6'') = CHR ''6''"
  "swapcase (CHR ''7'') = CHR ''7''" "swapcase (CHR ''8'') = CHR ''8''"
  "swapcase (CHR ''9'') = CHR ''9''" "swapcase (CHR '':'') = CHR '':''"
  "swapcase (CHR '';'') = CHR '';''" "swapcase (CHR ''<'') = CHR ''<''"
  "swapcase (CHR ''='') = CHR ''=''" "swapcase (CHR ''>'') = CHR ''>''"
  "swapcase (CHR ''?'') = CHR ''?''" "swapcase (CHR ''@'') = CHR ''@''"
  "swapcase (CHR ''A'') = CHR ''a''" "swapcase (CHR ''B'') = CHR ''b''"
  "swapcase (CHR ''C'') = CHR ''c''" "swapcase (CHR ''D'') = CHR ''d''"
  "swapcase (CHR ''E'') = CHR ''e''" "swapcase (CHR ''F'') = CHR ''f''"
  "swapcase (CHR ''G'') = CHR ''g''" "swapcase (CHR ''H'') = CHR ''h''"
  "swapcase (CHR ''I'') = CHR ''i''" "swapcase (CHR ''J'') = CHR ''j''"
  "swapcase (CHR ''K'') = CHR ''k''" "swapcase (CHR ''L'') = CHR ''l''"
  "swapcase (CHR ''M'') = CHR ''m''" "swapcase (CHR ''N'') = CHR ''n''"
  "swapcase (CHR ''O'') = CHR ''o''" "swapcase (CHR ''P'') = CHR ''p''"
  "swapcase (CHR ''Q'') = CHR ''q''" "swapcase (CHR ''R'') = CHR ''r''"
  "swapcase (CHR ''S'') = CHR ''s''" "swapcase (CHR ''T'') = CHR ''t''"
  "swapcase (CHR ''U'') = CHR ''u''" "swapcase (CHR ''V'') = CHR ''v''"
  "swapcase (CHR ''W'') = CHR ''w''" "swapcase (CHR ''X'') = CHR ''x''"
  "swapcase (CHR ''Y'') = CHR ''y''" "swapcase (CHR ''Z'') = CHR ''z''"
  "swapcase (CHR ''['') = CHR ''[''" "swapcase (CHR 0x5C) = CHR 0x5C"
  "swapcase (CHR '']'') = CHR '']''" "swapcase (CHR ''^'') = CHR ''^''"
  "swapcase (CHR ''_'') = CHR ''_''" "swapcase (CHR ''`'') = CHR ''`''"
  "swapcase (CHR ''a'') = CHR ''A''" "swapcase (CHR ''b'') = CHR ''B''"
  "swapcase (CHR ''c'') = CHR ''C''" "swapcase (CHR ''d'') = CHR ''D''"
  "swapcase (CHR ''e'') = CHR ''E''" "swapcase (CHR ''f'') = CHR ''F''"
  "swapcase (CHR ''g'') = CHR ''G''" "swapcase (CHR ''h'') = CHR ''H''"
  "swapcase (CHR ''i'') = CHR ''I''" "swapcase (CHR ''j'') = CHR ''J''"
  "swapcase (CHR ''k'') = CHR ''K''" "swapcase (CHR ''l'') = CHR ''L''"
  "swapcase (CHR ''m'') = CHR ''M''" "swapcase (CHR ''n'') = CHR ''N''"
  "swapcase (CHR ''o'') = CHR ''O''" "swapcase (CHR ''p'') = CHR ''P''"
  "swapcase (CHR ''q'') = CHR ''Q''" "swapcase (CHR ''r'') = CHR ''R''"
  "swapcase (CHR ''s'') = CHR ''S''" "swapcase (CHR ''t'') = CHR ''T''"
  "swapcase (CHR ''u'') = CHR ''U''" "swapcase (CHR ''v'') = CHR ''V''"
  "swapcase (CHR ''w'') = CHR ''W''" "swapcase (CHR ''x'') = CHR ''X''"
  "swapcase (CHR ''y'') = CHR ''Y''" "swapcase (CHR ''z'') = CHR ''Z''"
  "swapcase (CHR ''{'') = CHR ''{''" "swapcase (CHR ''|'') = CHR ''|''"
  "swapcase (CHR ''}'') = CHR ''}''" "swapcase (CHR ''~'') = CHR ''~''"
  by code_simp+

lemma upper_chr_tab [code]:
  "upper_chr (CHR 0x09) = [CHR 0x09]" "upper_chr (CHR 0x0A) = [CHR 0x0A]"
  "upper_chr (CHR 0x0D) = [CHR 0x0D]" "upper_chr (CHR '' '') = [CHR '' '']"
  "upper_chr (CHR ''!'') = [CHR ''!'']" "upper_chr (CHR 0x22) = [CHR 0x22]"
  "upper_chr (CHR ''#'') = [CHR ''#'']" "upper_chr (CHR ''$'') = [CHR ''$'']"
  "upper_chr (CHR ''%'') = [CHR ''%'']" "upper_chr (CHR ''&'') = [CHR ''&'']"
  "upper_chr (CHR 0x27) = [CHR 0x27]" "upper_chr (CHR ''('') = [CHR ''('']"
  "upper_chr (CHR '')'') = [CHR '')'']" "upper_chr (CHR ''*'') = [CHR ''*'']"
  "upper_chr (CHR ''+'') = [CHR ''+'']" "upper_chr (CHR '','') = [CHR '','']"
  "upper_chr (CHR ''-'') = [CHR ''-'']" "upper_chr (CHR ''.'') = [CHR ''.'']"
  "upper_chr (CHR ''/'') = [CHR ''/'']" "upper_chr (CHR ''0'') = [CHR ''0'']"
  "upper_chr (CHR ''1'') = [CHR ''1'']" "upper_chr (CHR ''2'') = [CHR ''2'']"
  "upper_chr (CHR ''3'') = [CHR ''3'']" "upper_chr (CHR ''4'') = [CHR ''4'']"
  "upper_chr (CHR ''5'') = [CHR ''5'']" "upper_chr (CHR ''6'') = [CHR ''6'']"
  "upper_chr (CHR ''7'') = [CHR ''7'']" "upper_chr (CHR ''8'') = [CHR ''8'']"
  "upper_chr (CHR ''9'') = [CHR ''9'']" "upper_chr (CHR '':'') = [CHR '':'']"
  "upper_chr (CHR '';'') = [CHR '';'']" "upper_chr (CHR ''<'') = [CHR ''<'']"
  "upper_chr (CHR ''='') = [CHR ''='']" "upper_chr (CHR ''>'') = [CHR ''>'']"
  "upper_chr (CHR ''?'') = [CHR ''?'']" "upper_chr (CHR ''@'') = [CHR ''@'']"
  "upper_chr (CHR ''A'') = [CHR ''A'']" "upper_chr (CHR ''B'') = [CHR ''B'']"
  "upper_chr (CHR ''C'') = [CHR ''C'']" "upper_chr (CHR ''D'') = [CHR ''D'']"
  "upper_chr (CHR ''E'') = [CHR ''E'']" "upper_chr (CHR ''F'') = [CHR ''F'']"
  "upper_chr (CHR ''G'') = [CHR ''G'']" "upper_chr (CHR ''H'') = [CHR ''H'']"
  "upper_chr (CHR ''I'') = [CHR ''I'']" "upper_chr (CHR ''J'') = [CHR ''J'']"
  "upper_chr (CHR ''K'') = [CHR ''K'']" "upper_chr (CHR ''L'') = [CHR ''L'']"
  "upper_chr (CHR ''M'') = [CHR ''M'']" "upper_chr (CHR ''N'') = [CHR ''N'']"
  "upper_chr (CHR ''O'') = [CHR ''O'']" "upper_chr (CHR ''P'') = [CHR ''P'']"
  "upper_chr (CHR ''Q'') = [CHR ''Q'']" "upper_chr (CHR ''R'') = [CHR ''R'']"
  "upper_chr (CHR ''S'') = [CHR ''S'']" "upper_chr (CHR ''T'') = [CHR ''T'']"
  "upper_chr (CHR ''U'') = [CHR ''U'']" "upper_chr (CHR ''V'') = [CHR ''V'']"
  "upper_chr (CHR ''W'') = [CHR ''W'']" "upper_chr (CHR ''X'') = [CHR ''X'']"
  "upper_chr (CHR ''Y'') = [CHR ''Y'']" "upper_chr (CHR ''Z'') = [CHR ''Z'']"
  "upper_chr (CHR ''['') = [CHR ''['']" "upper_chr (CHR 0x5C) = [CHR 0x5C]"
  "upper_chr (CHR '']'') = [CHR '']'']" "upper_chr (CHR ''^'') = [CHR ''^'']"
  "upper_chr (CHR ''_'') = [CHR ''_'']" "upper_chr (CHR ''`'') = [CHR ''`'']"
  "upper_chr (CHR ''a'') = [CHR ''A'']" "upper_chr (CHR ''b'') = [CHR ''B'']"
  "upper_chr (CHR ''c'') = [CHR ''C'']" "upper_chr (CHR ''d'') = [CHR ''D'']"
  "upper_chr (CHR ''e'') = [CHR ''E'']" "upper_chr (CHR ''f'') = [CHR ''F'']"
  "upper_chr (CHR ''g'') = [CHR ''G'']" "upper_chr (CHR ''h'') = [CHR ''H'']"
  "upper_chr (CHR ''i'') = [CHR ''I'']" "upper_chr (CHR ''j'') = [CHR ''J'']"
  "upper_chr (CHR ''k'') = [CHR ''K'']" "upper_chr (CHR ''l'') = [CHR ''L'']"
  "upper_chr (CHR ''m'') = [CHR ''M'']" "upper_chr (CHR ''n'') = [CHR ''N'']"
  "upper_chr (CHR ''o'') = [CHR ''O'']" "upper_chr (CHR ''p'') = [CHR ''P'']"
  "upper_chr (CHR ''q'') = [CHR ''Q'']" "upper_chr (CHR ''r'') = [CHR ''R'']"
  "upper_chr (CHR ''s'') = [CHR ''S'']" "upper_chr (CHR ''t'') = [CHR ''T'']"
  "upper_chr (CHR ''u'') = [CHR ''U'']" "upper_chr (CHR ''v'') = [CHR ''V'']"
  "upper_chr (CHR ''w'') = [CHR ''W'']" "upper_chr (CHR ''x'') = [CHR ''X'']"
  "upper_chr (CHR ''y'') = [CHR ''Y'']" "upper_chr (CHR ''z'') = [CHR ''Z'']"
  "upper_chr (CHR ''{'') = [CHR ''{'']" "upper_chr (CHR ''|'') = [CHR ''|'']"
  "upper_chr (CHR ''}'') = [CHR ''}'']" "upper_chr (CHR ''~'') = [CHR ''~'']"
  by code_simp+

declare is_space_def [code del] is_decimal_def [code del] is_digit_def [code del]
  is_word_def [code del] lower_ascii_def [code del] swapcase_def [code del]
  upper_chr_def [code del]


section \<open>Regular expressions as Python's \<^verbatim>\<open>re\<close> matches them\<close>

text \<open>
  The fragment of the pattern language that the program uses.  \<open>Lit\<close> is a run of
  literal characters, \<open>Dot\<close> is \<^verbatim>\<open>.\<close>, \<open>In\<close> and \<open>NotIn\<close> are \<^verbatim>\<open>[...]\<close> and
  \<^verbatim>\<open>[^...]\<close> (and \<^verbatim>\<open>\s\<close>, \<^verbatim>\<open>\w\<close>, \<^verbatim>\<open>\d\<close> on their own), \<open>Bnd\<close> is \<^verbatim>\<open>\b\<close>,
  \<open>Eos\<close> is \<^verbatim>\<open>$\<close>, \<open>Bos\<close> is \<^verbatim>\<open>^\<close>, \<open>Star\<close> is the greedy \<^verbatim>\<open>*\<close>, \<open>Grp n\<close> is
  the \<open>n\<close>-th capturing group and \<open>Ahead\<close> is \<^verbatim>\<open>(?=...)\<close>.
\<close>

datatype cset = CChr char | CRng char char | CDig | CWrd | CSpc

datatype regex =
    Lit string
  | Dot
  | In "cset list"
  | NotIn "cset list"
  | Bnd
  | Eos
  | Bos
  | Seq regex regex
  | Alt regex regex
  | Star regex
  | Grp nat regex
  | Ahead regex

text \<open>\<^verbatim>\<open>r+\<close>, \<^verbatim>\<open>r?\<close>, a sequence and an alternation of several patterns.\<close>

definition Plus :: "regex \<Rightarrow> regex" where
  "Plus r = Seq r (Star r)"

definition Opt :: "regex \<Rightarrow> regex" where
  "Opt r = Alt r (Lit [])"

fun Seqs :: "regex list \<Rightarrow> regex" where
  "Seqs [] = Lit []"
| "Seqs [r] = r"
| "Seqs (r # rs) = Seq r (Seqs rs)"

fun Alts :: "regex list \<Rightarrow> regex" where
  "Alts [] = NotIn [CRng (CHR 0x00) (CHR 0xFF)]"
| "Alts [r] = r"
| "Alts (r # rs) = Alt r (Alts rs)"

abbreviation WS :: regex where "WS \<equiv> In [CSpc]"
abbreviation W :: regex where "W \<equiv> In [CWrd]"
abbreviation D :: regex where "D \<equiv> In [CDig]"

definition in_range :: "char \<Rightarrow> char \<Rightarrow> char \<Rightarrow> bool" where
  "in_range a b x = (code a \<le> code x \<and> code x \<le> code b)"

fun cset_mem :: "cset \<Rightarrow> char \<Rightarrow> bool" where
  "cset_mem (CChr c) x = (x = c)"
| "cset_mem (CRng a b) x = in_range a b x"
| "cset_mem CDig x = is_decimal x"
| "cset_mem CWrd x = is_word x"
| "cset_mem CSpc x = is_space x"

text \<open>
  Membership in a character set; with \<^verbatim>\<open>IGNORECASE\<close> (\<open>ic\<close>) a character also belongs
  to the set when its other case does.
\<close>

definition in_class :: "bool \<Rightarrow> cset list \<Rightarrow> char \<Rightarrow> bool" where
  "in_class ic items x =
     (list_ex (\<lambda>it. cset_mem it x) items \<or>
      (ic \<and> list_ex (\<lambda>it. cset_mem it (swapcase x)) items))"

definition chr_eq :: "bool \<Rightarrow> char \<Rightarrow> char \<Rightarrow> bool" where
  "chr_eq ic c x = (if ic then lower_ascii x = lower_ascii c else x = c)"

text \<open>
  A position in the subject is the character before it (none at the start) and the text
  from it on; a match state adds the groups captured so far, the latest first.
\<close>

type_synonym caps = "(nat \<times> string) list"
type_synonym mstate = "char option \<times> string \<times> caps"

fun lit_match :: "bool \<Rightarrow> string \<Rightarrow> char option \<Rightarrow> string \<Rightarrow> (char option \<times> string) option" where
  "lit_match ic [] p s = Some (p, s)"
| "lit_match ic (c # cs) p [] = None"
| "lit_match ic (c # cs) p (x # xs) =
     (if chr_eq ic c x then lit_match ic cs (Some x) xs else None)"

text \<open>
  \<^verbatim>\<open>\b\<close>: exactly one of the two neighbours is a word character (outside the text
  counts as not a word character).
\<close>

definition at_boundary :: "char option \<Rightarrow> string \<Rightarrow> bool" where
  "at_boundary p s =
     ((case p of None \<Rightarrow> False | Some c \<Rightarrow> is_word c) \<noteq>
      (case s of [] \<Rightarrow> False | x # _ \<Rightarrow> is_word x))"

text \<open>\<open>shorter s' s\<close>: the text \<open>s'\<close> is strictly shorter than \<open>s\<close>.\<close>

fun shorter :: "'a list \<Rightarrow> 'a list \<Rightarrow> bool" where
  "shorter s' [] = False"
| "shorter [] (y # ys) = True"
| "shorter (x # xs) (y # ys) = shorter xs ys"

lemma shorter_length: "shorter s' s = (length s' < length s)"
  by (induction s' s rule: shorter.induct) auto

text \<open>
  The backtracking matcher.  \<open>rmatch ic r st\<close> lists the states in which a match of \<open>r\<close>
  started in \<open>st\<close> can end, in the order in which Python's backtracking search tries
  them, so the head of the list is the match that Python reports: a sequence tries every
  continuation of the first way to match its head before the second way, an alternation
  tries its left branch first, a greedy star tries one more iteration before stopping,
  and a look-ahead is tried once and consumes nothing.  An iteration of a star must
  consume text (no body of a star in this program can match the empty string).
\<close>

function (sequential) rmatch :: "bool \<Rightarrow> regex \<Rightarrow> mstate \<Rightarrow> mstate list" where
  "rmatch ic (Lit cs) (p, s, g) =
     (case lit_match ic cs p s of None \<Rightarrow> [] | Some (p', s') \<Rightarrow> [(p', s', g)])"
| "rmatch ic Dot (p, s, g) =
     (case s of [] \<Rightarrow> [] | x # xs \<Rightarrow> if x \<noteq> nl then [(Some x, xs, g)] else [])"
| "rmatch ic (In items) (p, s, g) =
     (case s of [] \<Rightarrow> [] | x # xs \<Rightarrow> if in_class ic items x then [(Some x, xs, g)] else [])"
| "rmatch ic (NotIn items) (p, s, g) =
     (case s of [] \<Rightarrow> [] | x # xs \<Rightarrow> if in_class ic items x then [] else [(Some x, xs, g)])"
| "rmatch ic Bnd (p, s, g) = (if at_boundary p s then [(p, s, g)] else [])"
| "rmatch ic Eos (p, s, g) = (if s = [] \<or> s = [nl] then [(p, s, g)] else [])"
| "rmatch ic Bos (p, s, g) = (if p = None then [(p, s, g)] else [])"
| "rmatch ic (Seq r1 r2) st = concat (map (rmatch ic r2) (rmatch ic r1 st))"
| "rmatch ic (Alt r1 r2) st = rmatch ic r1 st @ rmatch ic r2 st"
| "rmatch ic (Star r) (p, s, g) =
     concat (map (rmatch ic (Star r))
       (filter (\<lambda>(p', s', g'). shorter s' s) (rmatch ic r (p, s, g)))) @ [(p, s, g)]"
| "rmatch ic (Grp n r) (p, s, g) =
     map (\<lambda>(p', s', g'). (p', s', (n, take (length s - length s') s) # g'))
       (rmatch ic r (p, s, g))"
| "rmatch ic (Ahead r) st = (if rmatch ic r st = [] then [] else [st])"
  by pat_completeness auto
termination
  by (relation "inv_image (measure size <*lex*> measure length) (\<lambda>(ic, r, p, s, g). (r, s))")
    (auto simp: shorter_length)

declare rmatch.simps [simp del]

text \<open>\<^verbatim>\<open>m.group(n)\<close>; a group that did not take part in the match gives \<^verbatim>\<open>None\<close>.\<close>

definition group :: "caps \<Rightarrow> nat \<Rightarrow> string option" where
  "group g n = map_of g n"

text \<open>
  \<^verbatim>\<open>re.sub(pattern, repl, s)\<close>: scan from the left; where the pattern matches, emit the
  replacement and go on after the match, elsewhere copy one character.  After an empty
  match one character is copied.  The replacement is taken literally: every replacement
  in this program is a fixed placeholder, or is built from identifiers found by
  \<^verbatim>\<open>\w+\<close> and from the names and type tags of the schema, which are taken to contain
  no backslash (Python would read a backslash in \<^verbatim>\<open>repl\<close> as an escape).
\<close>

function sub_loop :: "bool \<Rightarrow> regex \<Rightarrow> string \<Rightarrow> char option \<Rightarrow> string \<Rightarrow> string" where
  "sub_loop ic r repl p s =
     (case rmatch ic r (p, s, []) of
        [] \<Rightarrow> (case s of [] \<Rightarrow> [] | x # xs \<Rightarrow> x # sub_loop ic r repl (Some x) xs)
      | (p', s', g) # _ \<Rightarrow>
          if shorter s' s then repl @ sub_loop ic r repl p' s'
          else repl @ (case s of [] \<Rightarrow> [] | x # xs \<Rightarrow> x # sub_loop ic r repl (Some x) xs))"
  by pat_completeness auto
termination
  by (relation "measure (\<lambda>(ic, r, repl, p, s). length s)") (auto simp: shorter_length)

declare sub_loop.simps [simp del]

definition re_sub :: "bool \<Rightarrow> regex \<Rightarrow> string \<Rightarrow> string \<Rightarrow> string" where
  "re_sub ic r repl s = sub_loop ic r repl None s"

text \<open>
  \<^verbatim>\<open>re.finditer(pattern, s)\<close>: the groups of the successive matches, found by the same
  scan.
\<close>

function finditer_loop :: "bool \<Rightarrow> regex \<Rightarrow> char option \<Rightarrow> string \<Rightarrow> caps list" where
  "finditer_loop ic r p s =
     (case rmatch ic r (p, s, []) of
        [] \<Rightarrow> (case s of [] \<Rightarrow> [] | x # xs \<Rightarrow> finditer_loop ic r (Some x) xs)
      | (p', s', g) # _ \<Rightarrow>
          if shorter s' s then g # finditer_loop ic r p' s'
          else g # (case s of [] \<Rightarrow> [] | x # xs \<Rightarrow> finditer_loop ic r (Some x) xs))"
  by pat_completeness auto
termination
  by (relation "measure (\<lambda>(ic, r, p, s). length s)") (auto simp: shorter_length)

declare finditer_loop.simps [simp del]

definition finditer :: "bool \<Rightarrow> regex \<Rightarrow> string \<Rightarrow> caps list" where
  "finditer ic r s = finditer_loop ic r None s"

text \<open>\<^verbatim>\<open>re.match(pattern, s)\<close> as a truth value: a match at the start of \<open>s\<close>.\<close>

definition re_match :: "bool \<Rightarrow> regex \<Rightarrow> string \<Rightarrow> bool" where
  "re_match ic r s = (rmatch ic r (None, s, []) \<noteq> [])"

section \<open>Python containers\<close>

text \<open>
  A \<^verbatim>\<open>dict\<close> is an association list in insertion order; assigning to a key that is
  present replaces its value in place.  A \<^verbatim>\<open>set\<close> of strings is the list of its
  elements in the order in which they were first added.  Python does not specify the
  order in which a set is iterated (for strings it depends on hash values that change
  from one process to the next), so every function that iterates over a set takes the
  iteration order as a parameter \<open>so\<close>, a function that rearranges the elements.
\<close>

fun dict_set :: "('k \<times> 'v) list \<Rightarrow> 'k \<Rightarrow> 'v \<Rightarrow> ('k \<times> 'v) list" where
  "dict_set [] k v = [(k, v)]"
| "dict_set ((k', v') # d) k v = (if k' = k then (k, v) # d else (k', v') # dict_set d k v)"

definition set_add :: "'a list \<Rightarrow> 'a \<Rightarrow> 'a list" where
  "set_add xs x = (if x \<in> set xs then xs else xs @ [x])"

text \<open>
  \<^verbatim>\<open>sorted(xs, key=len, reverse=True)\<close>: longest first; the sort is stable, so elements
  of equal length keep the order in which \<open>xs\<close> lists them.
\<close>

fun insert_len :: "string list \<Rightarrow> string \<Rightarrow> string list" where
  "insert_len [] x = [x]"
| "insert_len (y # ys) x = (if shorter y x then x # y # ys else y # insert_len ys x)"

definition sorted_len_desc :: "string list \<Rightarrow> string list" where
  "sorted_len_desc xs = foldl insert_len [] xs"

text \<open>\<^verbatim>\<open>{a: prefix + str(i) for i, a in enumerate(order)}\<close>\<close>

definition numbered :: "string \<Rightarrow> string list \<Rightarrow> (string \<times> string) list" where
  "numbered prefix order = map (\<lambda>(i, a). (a, prefix @ str_nat i)) (enumerate 0 order)"

section \<open>Literal replacement: \<^verbatim>\<open>_replace_literals\<close>\<close>

text \<open>
  The patterns, in the order of the source:
  \<^verbatim>\<open>(?i)\b(DATE|TIMESTAMP|TIME|INTERVAL)\s*'([^']|'')*'\<close>,
  \<^verbatim>\<open>'([^']|'')*'\<close>,
  \<^verbatim>\<open>"([^"\\]|\\.)*"\<close>,
  \<^verbatim>\<open>\b\d+\.?\d*([eE][-+]?\d+)?\b\<close> and
  \<^verbatim>\<open>\b\.\d+([eE][-+]?\d+)?\b\<close>.
\<close>

definition date_pattern :: regex where
  "date_pattern =
     Seqs [Bnd, Grp 1 (Alts [Lit ''DATE'', Lit ''TIMESTAMP'', Lit ''TIME'', Lit ''INTERVAL'']),
           Star WS, Lit [sq], Star (Grp 2 (Alt (NotIn [CChr sq]) (Lit [sq, sq]))), Lit [sq]]"

definition single_quoted :: regex where
  "single_quoted = Seqs [Lit [sq], Star (Grp 1 (Alt (NotIn [CChr sq]) (Lit [sq, sq]))), Lit [sq]]"

definition double_quoted :: regex where
  "double_quoted =
     Seqs [Lit [dq], Star (Grp 1 (Alt (NotIn [CChr dq, CChr bsl]) (Seq (Lit [bsl]) Dot))), Lit [dq]]"

definition exponent :: regex where
  "exponent =
     Opt (Grp 1 (Seqs [In [CChr CHR ''e'', CChr CHR ''E''],
                       Opt (In [CChr CHR ''-'', CChr CHR ''+'']), Plus D]))"

definition number_pattern :: regex where
  "number_pattern = Seqs [Bnd, Plus D, Opt (Lit ''.''), Star D, exponent, Bnd]"

definition dot_number_pattern :: regex where
  "dot_number_pattern = Seqs [Bnd, Lit ''.'', Plus D, exponent, Bnd]"

definition replace_literals :: "string \<Rightarrow> string" where
  "replace_literals sql =
     (let out = re_sub True date_pattern ''DATE'' sql;
          out = re_sub False single_quoted ''STR'' out;
          out = re_sub False double_quoted ''STR'' out;
          out = re_sub False number_pattern ''NUM'' out;
          out = re_sub False dot_number_pattern ''NUM'' out
      in out)"

section \<open>\<^verbatim>\<open>_is_numeric_token\<close>\<close>

text \<open>
  \<^verbatim>\<open>float(w)\<close> succeeds or raises \<^verbatim>\<open>ValueError\<close>; the function is only called on
  tokens matched by \<^verbatim>\<open>\w+\<close>, which contain no sign, no dot and no white space.  On
  such a token \<^verbatim>\<open>float\<close> accepts \<^verbatim>\<open>inf\<close>, \<^verbatim>\<open>infinity\<close> and \<^verbatim>\<open>nan\<close> in any case,
  and decimal digits that single underscores may separate, with an optional exponent of
  the same form after \<^verbatim>\<open>e\<close> or \<^verbatim>\<open>E\<close>.
\<close>

fun digitpart :: "string \<Rightarrow> bool" where
  "digitpart [] = False"
| "digitpart [c] = is_decimal c"
| "digitpart (c # d # cs) =
     (is_decimal c \<and> (if d = CHR ''_'' then digitpart cs else digitpart (d # cs)))"

definition float_ok :: "string \<Rightarrow> bool" where
  "float_ok w =
     (lower w \<in> set [''inf'', ''infinity'', ''nan''] \<or>
      (case dropWhile (\<lambda>c. c \<noteq> CHR ''e'' \<and> c \<noteq> CHR ''E'') w of
         [] \<Rightarrow> digitpart w
       | e # ex \<Rightarrow>
           digitpart (takeWhile (\<lambda>c. c \<noteq> CHR ''e'' \<and> c \<noteq> CHR ''E'') w) \<and> digitpart ex))"

definition is_numeric_token :: "string \<Rightarrow> bool" where
  "is_numeric_token w =
     (if w = [] then False
      else if list_all is_digit w then True
      else float_ok w)"

section \<open>\<^verbatim>\<open>_build_boolean_col_refs\<close>\<close>

text \<open>
  A schema is the dictionary \<^verbatim>\<open>(table_name, column_name) -> type\<close>.
\<close>

type_synonym schema = "((string \<times> string) \<times> string) list"

definition is_bool_type :: "string \<Rightarrow> bool" where
  "is_bool_type typ = (lower typ \<in> set [''boolean'', ''bool''])"

text \<open>
  A loop \<^verbatim>\<open>for x in xs: body\<close> is \<open>foldl body state xs\<close>, where \<open>body\<close> maps the
  variables that the loop changes and the element \<open>x\<close> to the changed variables.

  The first loop (lines 128 to 134) on \<open>refs\<close>, one schema item at a time, and the loop
  over \<open>alias_to_table\<close> inside it.
\<close>

fun alias_ref :: "string \<Rightarrow> string \<Rightarrow> string list \<Rightarrow> string \<times> string \<Rightarrow> string list" where
  "alias_ref t c refs (alias, tbl) =
     (if tbl = t then set_add refs (alias @ ''.'' @ c) else refs)"

fun bool_refs_qualified ::
  "(string \<times> string) list \<Rightarrow> string list \<Rightarrow> ((string \<times> string) \<times> string) \<Rightarrow> string list" where
  "bool_refs_qualified alias_to_table refs ((t, c), typ) =
     (if \<not> is_bool_type typ then refs
      else foldl (alias_ref t c) (set_add refs (t @ ''.'' @ c)) alias_to_table)"

text \<open>The second loop (lines 135 to 139).\<close>

fun bool_refs_bare ::
  "string list \<Rightarrow> string list \<Rightarrow> ((string \<times> string) \<times> string) \<Rightarrow> string list" where
  "bool_refs_bare tables refs ((t, c), typ) =
     (if \<not> is_bool_type typ then refs
      else if t \<in> set tables then set_add refs c else refs)"

definition build_boolean_col_refs ::
  "(string list \<Rightarrow> string list) \<Rightarrow> schema \<Rightarrow> string list \<Rightarrow> (string \<times> string) list \<Rightarrow> string list" where
  "build_boolean_col_refs so schema tables alias_to_table =
     (if schema = [] then []
      else sorted_len_desc (so
             (foldl (bool_refs_bare tables)
               (foldl (bool_refs_qualified alias_to_table) [] schema) schema)))"

section \<open>\<^verbatim>\<open>_replace_literals_bird\<close>\<close>

text \<open>
  The four patterns built around a reference \<open>ref\<close> (\<^verbatim>\<open>re.escape(ref)\<close> matches the
  characters of \<open>ref\<close> literally):
  \<^verbatim>\<open>\bREF\s*=\s*(\d+)\b\<close>, \<^verbatim>\<open>\bREF\s*=\s*'([^']|'')*'\<close>,
  \<^verbatim>\<open>\b(\d+)\s*=\s*REF\b\<close> and \<^verbatim>\<open>'([^']|'')*'\s*=\s*REF\b\<close>.
\<close>

definition equals :: regex where
  "equals = Seqs [Star WS, Lit ''='', Star WS]"

definition ref_eq_number :: "string \<Rightarrow> regex" where
  "ref_eq_number ref = Seqs [Bnd, Lit ref, equals, Grp 1 (Plus D), Bnd]"

definition ref_eq_string :: "string \<Rightarrow> regex" where
  "ref_eq_string ref = Seqs [Bnd, Lit ref, equals, single_quoted]"

definition number_eq_ref :: "string \<Rightarrow> regex" where
  "number_eq_ref ref = Seqs [Bnd, Grp 1 (Plus D), equals, Lit ref, Bnd]"

definition string_eq_ref :: "string \<Rightarrow> regex" where
  "string_eq_ref ref = Seqs [single_quoted, equals, Lit ref, Bnd]"

text \<open>The body of the loop over the references (lines 150 to 154).\<close>

definition boolean_rewrite :: "string \<Rightarrow> string \<Rightarrow> string" where
  "boolean_rewrite out ref =
     (let out = re_sub False (ref_eq_number ref) (ref @ '' = boolean'') out;
          out = re_sub False (ref_eq_string ref) (ref @ '' = boolean'') out;
          out = re_sub False (number_eq_ref ref) (''boolean = '' @ ref) out;
          out = re_sub False (string_eq_ref ref) (''boolean = '' @ ref) out
      in out)"

definition replace_literals_bird :: "string \<Rightarrow> string list \<Rightarrow> string" where
  "replace_literals_bird sql boolean_col_refs =
     (let out = foldl boolean_rewrite sql boolean_col_refs;
          out = re_sub True date_pattern ''date'' out;
          out = re_sub False single_quoted ''string'' out;
          out = re_sub False double_quoted ''string'' out;
          out = re_sub False number_pattern ''num'' out;
          out = re_sub False dot_number_pattern ''num'' out
      in out)"

section \<open>Identifier discovery: \<^verbatim>\<open>_collect_identifiers_regex\<close>\<close>

text \<open>
  The patterns.  \<open>join_kw\<close> is
  \<^verbatim>\<open>(?:FROM|JOIN|INNER\s+JOIN|LEFT\s+JOIN|RIGHT\s+JOIN|FULL\s+JOIN|CROSS\s+JOIN|OUTER\s+JOIN)\<close>
  and \<open>lookahead\<close> is the look-ahead of line 176.
\<close>

definition cte_ctx :: regex where
  "cte_ctx = Seqs [Bnd, Lit ''WITH'', Plus WS, Grp 1 (Plus W), Plus WS, Lit ''AS'', Plus WS]"

definition join_kw :: regex where
  "join_kw =
     Alts [Lit ''FROM'', Lit ''JOIN'',
           Seqs [Lit ''INNER'', Plus WS, Lit ''JOIN''], Seqs [Lit ''LEFT'', Plus WS, Lit ''JOIN''],
           Seqs [Lit ''RIGHT'', Plus WS, Lit ''JOIN''], Seqs [Lit ''FULL'', Plus WS, Lit ''JOIN''],
           Seqs [Lit ''CROSS'', Plus WS, Lit ''JOIN''], Seqs [Lit ''OUTER'', Plus WS, Lit ''JOIN'']]"

definition lookahead :: regex where
  "lookahead =
     Ahead (Alts [
       Seq (Plus WS) (Lit ''ON''), Seq (Plus WS) (Lit ''USING''), Seq (Star WS) (Lit '')''),
       Seq (Star WS) (Lit '',''), Seq (Plus WS) (Lit ''GROUP''), Seq (Plus WS) (Lit ''ORDER''),
       Seq (Plus WS) (Lit ''WHERE''), Seq (Plus WS) (Lit ''HAVING''),
       Seq (Plus WS) (Lit ''LIMIT''), Seq (Plus WS) (Lit ''OFFSET''), Seq (Star WS) (Lit '';''),
       Seq (Plus WS) (Lit ''JOIN''), Seq (Plus WS) (Lit ''LEFT''), Seq (Plus WS) (Lit ''INNER''),
       Seq (Plus WS) (Lit ''RIGHT''), Seq (Plus WS) (Lit ''CROSS''), Seq (Plus WS) (Lit ''FULL''),
       Seq (Plus WS) (Lit ''OUTER''), Seq (Star WS) Eos])"

text \<open>
  \<^verbatim>\<open>(?i)JOIN_KW\s+(\w+)\s+AS\s+(\w+)\<close>, \<^verbatim>\<open>(?i)JOIN_KW\s+(\w+)(?:\s+(\w+))\<close> and
  \<^verbatim>\<open>(?i)JOIN_KW\s+(\w+)\<close>, each followed by the look-ahead;
  \<^verbatim>\<open>(?i)\bAS\s+(\w+)(?:\s*[,\)]|\s+[A-Z_]|\s*$)\<close>; \<^verbatim>\<open>\b(\w+)\.(\w+)\b\<close>;
  \<^verbatim>\<open>\b(\w+)\b\<close>.
\<close>

definition from_join_with_as :: regex where
  "from_join_with_as =
     Seqs [join_kw, Plus WS, Grp 1 (Plus W), Plus WS, Lit ''AS'', Plus WS, Grp 2 (Plus W),
           lookahead]"

definition from_join_no_as :: regex where
  "from_join_no_as =
     Seqs [join_kw, Plus WS, Grp 1 (Plus W), Seq (Plus WS) (Grp 2 (Plus W)), lookahead]"

definition from_join_table_only :: regex where
  "from_join_table_only = Seqs [join_kw, Plus WS, Grp 1 (Plus W), lookahead]"

definition as_alias :: regex where
  "as_alias =
     Seqs [Bnd, Lit ''AS'', Plus WS, Grp 1 (Plus W),
           Alts [Seq (Star WS) (In [CChr CHR '','', CChr CHR '')'']),
                 Seq (Plus WS) (In [CRng CHR ''A'' CHR ''Z'', CChr CHR ''_'']),
                 Seq (Star WS) Eos]]"

definition qualified_ref :: regex where
  "qualified_ref = Seqs [Bnd, Grp 1 (Plus W), Lit ''.'', Grp 2 (Plus W), Bnd]"

definition word_token :: regex where
  "word_token = Seqs [Bnd, Grp 1 (Plus W), Bnd]"

text \<open>
  \<^verbatim>\<open>^table_alias_placeholder\d+$\<close>, \<^verbatim>\<open>^col_alias_placeholder\d+$\<close>,
  \<^verbatim>\<open>^table_alias\d+$\<close> and \<^verbatim>\<open>^column_alias\d+$\<close>, all used with \<^verbatim>\<open>re.I\<close>.
\<close>

definition numbered_name :: "string \<Rightarrow> regex" where
  "numbered_name prefix = Seqs [Bos, Lit prefix, Plus D, Eos]"

text \<open>The keyword lists of the source.\<close>

definition not_table_alias_kw :: "string list" where
  "not_table_alias_kw =
     [''ON'', ''USING'', ''WHERE'', ''LEFT'', ''RIGHT'', ''INNER'', ''OUTER'', ''CROSS'', ''JOIN'',
      ''GROUP'', ''ORDER'', ''HAVING'', ''LIMIT'', ''OFFSET'', ''AND'', ''OR'', ''BY'', ''SELECT'',
      ''FROM'', ''AS'', ''WITH'', ''END'', ''THEN'', ''ELSE'', ''WHEN'', ''NULL'', ''TRUE'', ''FALSE'']"

definition col_alias_kw :: "string list" where
  "col_alias_kw =
     [''SELECT'', ''FROM'', ''WHERE'', ''GROUP'', ''ORDER'', ''BY'', ''HAVING'', ''ON'', ''AND'', ''OR'',
      ''END'', ''THEN'', ''ELSE'', ''WHEN'', ''NULL'', ''TRUE'', ''FALSE'', ''WITH'', ''AS'', ''DISTINCT'',
      ''FILTER'', ''WITHIN'', ''OVER'', ''PARTITION'', ''BETWEEN'', ''LIKE'', ''IN'', ''IS'', ''NOT'',
      ''EXISTS'', ''CASE'', ''ASC'', ''DESC'', ''LIMIT'', ''OFFSET'']"

definition column_qualifier_kw :: "string list" where
  "column_qualifier_kw = [''ON'', ''BY'', ''AND'', ''OR'', ''SELECT'', ''FROM'']"

definition not_inferred_alias_kw :: "string list" where
  "not_inferred_alias_kw =
     [''NUM'', ''STR'', ''DATE'', ''GROUP'', ''ORDER'', ''WITHIN'', ''OVER'', ''PARTITION'',
      ''BETWEEN'', ''LIKE'', ''IN'', ''IS'', ''NOT'', ''EXISTS'', ''CASE'', ''THEN'', ''ELSE'', ''WHEN'',
      ''END'', ''TRUE'', ''FALSE'', ''NULL'']"

definition placeholder_keywords :: "string list" where
  "placeholder_keywords =
     [''NUM'', ''STR'', ''DATE'', ''TABLE_NAME'', ''COL_NAME'',
      ''TABLE_ALIAS_PLACEHOLDER0'', ''TABLE_ALIAS_PLACEHOLDER1'', ''TABLE_ALIAS_PLACEHOLDER2'',
      ''COL_ALIAS_PLACEHOLDER0'', ''COL_ALIAS_PLACEHOLDER1'', ''COL_ALIAS_PLACEHOLDER2'',
      ''num'', ''string'', ''date'', ''boolean'',
      ''table_alias0'', ''table_alias1'', ''table_alias2'',
      ''column_alias0'', ''column_alias1'', ''column_alias2'']"

definition sql_keywords :: "string list" where
  "sql_keywords =
     [''SELECT'', ''FROM'', ''WHERE'', ''GROUP'', ''BY'', ''ORDER'', ''HAVING'', ''ON'', ''AND'', ''OR'',
      ''JOIN'', ''LEFT'', ''RIGHT'', ''INNER'', ''OUTER'', ''CROSS'', ''FULL'', ''AS'', ''DISTINCT'',
      ''NULL'', ''TRUE'', ''FALSE'', ''BETWEEN'', ''LIKE'', ''IN'', ''IS'', ''NOT'', ''EXISTS'',
      ''CASE'', ''WHEN'', ''THEN'', ''ELSE'', ''END'', ''ASC'', ''DESC'', ''LIMIT'', ''OFFSET'',
      ''WITH'', ''FILTER'', ''WITHIN'', ''OVER'', ''PARTITION'', ''RANGE'', ''ROWS'',
      ''USING'', ''TABLE'', ''INTO'', ''UPDATE'', ''SET'', ''VALUES'', ''INSERT'', ''DELETE'',
      ''CREATE'', ''ALTER'', ''DROP'', ''INDEX'', ''PRIMARY'', ''KEY'', ''REFERENCES'',
      ''COUNT'', ''SUM'', ''AVG'', ''MIN'', ''MAX'', ''STDDEV'', ''PERCENTILE_CONT'',
      ''ABS'', ''ROUND'', ''STRING_AGG'', ''JSON_BUILD_OBJECT'', ''JSON_OBJECT_AGG'',
      ''COALESCE'', ''NULLIF'', ''CAST'', ''EXTRACT'', ''UNNEST'', ''ARRAY'',
      ''SUBSTR'', ''SUBSTRING'', ''STRFTIME'', ''LENGTH'', ''CONCAT'',
      ''REPLACE'', ''TRIM'', ''UPPER'', ''LOWER'', ''INSTR'', ''DATE'', ''YEAR'', ''MONTH'',
      ''LATERAL'', ''CROSS'', ''UNION'', ''EXCEPT'', ''INTERSECT'', ''ALL'', ''ANY'',
      ''SIGNAL'', ''NOISE'', ''SNQI'', ''SSM'', ''TOLS'', ''MCS'', ''RPI'', ''BFR'', ''LIF'', ''CCS'',
      ''CIP''] @ placeholder_keywords"

text \<open>
  \<^verbatim>\<open>m.group(n)\<close> for a group that every match of the pattern sets (in the patterns above
  no group is optional).
\<close>

definition grp :: "caps \<Rightarrow> nat \<Rightarrow> string" where
  "grp m n = (case group m n of None \<Rightarrow> [] | Some t \<Rightarrow> t)"

text \<open>The CTE loop (lines 191 and 192) adds \<^verbatim>\<open>m.group(1)\<close> to \<open>tables\<close>.\<close>

definition add_table :: "string list \<Rightarrow> caps \<Rightarrow> string list" where
  "add_table tables m = set_add tables (grp m 1)"

text \<open>
  The bodies of the two alias loops (lines 195 to 201 and 204 to 210) on the variables
  \<open>tables\<close>, \<open>alias_to_table\<close> and \<open>table_alias_order\<close>; \<open>record_alias\<close> is what both
  do for an alias that is not a keyword.
\<close>

type_synonym alias_state = "string list \<times> (string \<times> string) list \<times> string list"

fun record_alias :: "string \<Rightarrow> string \<Rightarrow> alias_state \<Rightarrow> alias_state" where
  "record_alias t a (tables, alias_to_table, table_alias_order) =
     (tables, dict_set alias_to_table a t,
      if a \<in> set table_alias_order then table_alias_order else table_alias_order @ [a])"

fun with_as_step :: "alias_state \<Rightarrow> caps \<Rightarrow> alias_state" where
  "with_as_step (tables, alias_to_table, table_alias_order) m =
     (let t = grp m 1; a = grp m 2;
          st = (set_add tables t, alias_to_table, table_alias_order)
      in if upper a \<notin> set not_table_alias_kw then record_alias t a st else st)"

fun no_as_step :: "alias_state \<Rightarrow> caps \<Rightarrow> alias_state" where
  "no_as_step (tables, alias_to_table, table_alias_order) m =
     (let t = grp m 1; a = grp m 2;
          st = (set_add tables t, alias_to_table, table_alias_order)
      in if a \<noteq> [] \<and> upper a \<noteq> ''AS'' \<and> upper a \<notin> set not_table_alias_kw
         then record_alias t a st else st)"

text \<open>The table-only loop (lines 213 and 214) changes \<open>tables\<close> alone.\<close>

fun table_only_scan :: "string \<Rightarrow> alias_state \<Rightarrow> alias_state" where
  "table_only_scan sql (tables, alias_to_table, table_alias_order) =
     (foldl add_table tables (finditer True from_join_table_only sql),
      alias_to_table, table_alias_order)"

text \<open>
  Lines 185 to 214: the four loops that fill \<open>tables\<close>, \<open>alias_to_table\<close> and
  \<open>table_alias_order\<close> from the \<^verbatim>\<open>WITH\<close>, \<^verbatim>\<open>FROM\<close> and \<^verbatim>\<open>JOIN\<close> clauses.
\<close>

definition from_join_scan :: "string \<Rightarrow> alias_state" where
  "from_join_scan sql =
     table_only_scan sql
       (foldl no_as_step
          (foldl with_as_step
             (foldl add_table [] (finditer True cte_ctx sql), [], [])
             (finditer True from_join_with_as sql))
          (finditer True from_join_no_as sql))"

text \<open>
  The column alias loop (lines 225 to 232); \<open>table_aliases\<close> is \<open>table_aliases_set\<close>, the
  table aliases found by the loops above.
\<close>

definition col_alias_step :: "string list \<Rightarrow> string list \<Rightarrow> caps \<Rightarrow> string list" where
  "col_alias_step table_aliases col_alias_order m =
     (let a = grp m 1 in
        if upper a \<in> set col_alias_kw then col_alias_order
        else if a \<in> set table_aliases then col_alias_order
        else if a \<notin> set col_alias_order then col_alias_order @ [a]
        else col_alias_order)"

text \<open>
  The loop over qualified references (lines 236 to 246) on \<open>columns\<close> and
  \<open>table_alias_order\<close>.
\<close>

fun qualified_step ::
  "string list \<Rightarrow> string list \<times> string list \<Rightarrow> caps \<Rightarrow> string list \<times> string list" where
  "qualified_step tables (columns, table_alias_order) m =
     (let qual = grp m 1; col = grp m 2;
          columns = (if upper qual \<notin> set column_qualifier_kw then set_add columns col
                     else columns)
      in if qual \<notin> set table_alias_order \<and> qual \<notin> set tables \<and>
            upper qual \<notin> set not_inferred_alias_kw
         then (columns,
               if qual \<notin> set table_alias_order then table_alias_order @ [qual]
               else table_alias_order)
         else (columns, table_alias_order))"

text \<open>The loop over all words (lines 276 to 290) on \<open>columns\<close>.\<close>

definition word_step ::
  "bool \<Rightarrow> string list \<Rightarrow> (string \<times> string) list \<Rightarrow> (string \<times> string) list \<Rightarrow>
   string list \<Rightarrow> caps \<Rightarrow> string list" where
  "word_step raw_sql tables table_alias_map col_alias_map columns m =
     (let w = grp m 1 in
        if upper w \<in> set sql_keywords then columns
        else if w \<in> set tables \<or> w \<in> fst ` set table_alias_map \<or> w \<in> fst ` set col_alias_map
        then columns
        else if re_match True (numbered_name ''table_alias_placeholder'') w \<or>
                re_match True (numbered_name ''col_alias_placeholder'') w
        then columns
        else if w \<in> set [''table_name'', ''col_name''] then columns
        else if w \<in> set [''NUM'', ''STR'', ''DATE'', ''num'', ''string'', ''date'', ''boolean'']
        then columns
        else if raw_sql \<and> is_numeric_token w then columns
        else set_add columns w)"

text \<open>
  The result is the tuple \<^verbatim>\<open>(tables, table_alias_map, col_alias_map, columns,
  alias_to_table)\<close>.
\<close>

type_synonym idents =
  "string list \<times> (string \<times> string) list \<times> (string \<times> string) list \<times> string list \<times>
   (string \<times> string) list"

text \<open>
  Lines 248 to 292: the two placeholder maps, the loop over the words and the result, from
  the variables as they are after line 246.
\<close>

fun collect_words ::
  "string \<Rightarrow> bool \<Rightarrow> string list \<Rightarrow> (string \<times> string) list \<Rightarrow> string list \<Rightarrow>
   string list \<times> string list \<Rightarrow> idents" where
  "collect_words sql raw_sql tables alias_to_table col_alias_order (columns, table_alias_order) =
     (let table_alias_map = numbered ''table_alias_placeholder'' table_alias_order;
          col_alias_map = numbered ''col_alias_placeholder'' col_alias_order
      in (tables, table_alias_map, col_alias_map,
          foldl (word_step raw_sql tables table_alias_map col_alias_map) columns
            (finditer False word_token sql),
          alias_to_table))"

text \<open>
  Lines 216 to 246: the column alias loop and the loop over the qualified references,
  from the variables as they are after line 214.
\<close>

fun collect_aliases :: "string \<Rightarrow> bool \<Rightarrow> alias_state \<Rightarrow> idents" where
  "collect_aliases sql raw_sql (tables, alias_to_table, table_alias_order) =
     collect_words sql raw_sql tables alias_to_table
       (foldl (col_alias_step table_alias_order) [] (finditer True as_alias sql))
       (foldl (qualified_step tables) ([], table_alias_order) (finditer False qualified_ref sql))"

definition collect_identifiers_regex :: "string \<Rightarrow> bool \<Rightarrow> idents" where
  "collect_identifiers_regex sql raw_sql = collect_aliases sql raw_sql (from_join_scan sql)"

section \<open>Identifier replacement: \<^verbatim>\<open>_apply_identifier_replacements\<close>\<close>

text \<open>
  \<^verbatim>\<open>re.sub(r"\b" + re.escape(name) + r"\b", repl, out)\<close> and
  \<^verbatim>\<open>re.sub(r"\." + re.escape(name) + r"\b", repl, out)\<close>.
\<close>

definition sub_word :: "string \<Rightarrow> string \<Rightarrow> string \<Rightarrow> string" where
  "sub_word name repl out = re_sub False (Seqs [Bnd, Lit name, Bnd]) repl out"

definition sub_dot_word :: "string \<Rightarrow> string \<Rightarrow> string \<Rightarrow> string" where
  "sub_dot_word name repl out = re_sub False (Seqs [Lit ''.'', Lit name, Bnd]) repl out"

text \<open>
  \<^verbatim>\<open>re.sub(r"\b" + re.escape(q) + r"\." + re.escape(col) + r"\b", repl, out)\<close>
\<close>

definition sub_qualified :: "string \<Rightarrow> string \<Rightarrow> string \<Rightarrow> string \<Rightarrow> string" where
  "sub_qualified q col repl out = re_sub False (Seqs [Bnd, Lit q, Lit ''.'', Lit col, Bnd]) repl out"

text \<open>
  Step 1 of the schema branch (lines 312 to 321).  The innermost loop body rewrites
  \<^verbatim>\<open>q.col\<close> to \<^verbatim>\<open>qrepl.typ\<close> when the schema item belongs to \<open>table\<close>; the loops around
  it run over the schema for one alias and for one table.
\<close>

fun qualified_item ::
  "string \<Rightarrow> string \<Rightarrow> string \<Rightarrow> string \<Rightarrow> ((string \<times> string) \<times> string) \<Rightarrow> string" where
  "qualified_item q qrepl table out ((t, col), typ) =
     (if t \<noteq> table then out else sub_qualified q col (qrepl @ ''.'' @ typ) out)"

fun schema_alias :: "schema \<Rightarrow> string \<Rightarrow> string \<times> string \<Rightarrow> string" where
  "schema_alias schema out (alias, table) = foldl (qualified_item alias alias table) out schema"

definition schema_table :: "schema \<Rightarrow> string \<Rightarrow> string \<Rightarrow> string" where
  "schema_table schema out table = foldl (qualified_item table ''table_name'' table) out schema"

text \<open>
  \<open>col_to_types[col]\<close> (lines 323 to 325) as the list of the distinct types that the schema
  gives to a column of that name.
\<close>

definition col_to_types :: "schema \<Rightarrow> string \<Rightarrow> string list" where
  "col_to_types schema col = remdups (map snd (filter (\<lambda>((t, c), typ). c = col) schema))"

text \<open>
  Step 2 (lines 326 to 330) on the text and \<open>cols_replaced_by_schema\<close>.
\<close>

fun schema_bare :: "schema \<Rightarrow> string \<times> string list \<Rightarrow> string \<Rightarrow> string \<times> string list" where
  "schema_bare schema (out, cols_replaced_by_schema) col =
     (case col_to_types schema col of
        [typ] \<Rightarrow> (sub_word col typ out, set_add cols_replaced_by_schema col)
      | _ \<Rightarrow> (out, cols_replaced_by_schema))"

text \<open>
  The three loops of the schema branch, and the branch itself, which is taken when
  \<^verbatim>\<open>schema and alias_to_table is not None\<close>; otherwise the text is unchanged and no
  column counts as replaced.  The result is the text and \<open>cols_replaced_by_schema\<close>.
\<close>

definition schema_passes ::
  "(string list \<Rightarrow> string list) \<Rightarrow> string \<Rightarrow> string list \<Rightarrow> string list \<Rightarrow>
   (string \<times> string) list \<Rightarrow> schema \<Rightarrow> string \<times> string list" where
  "schema_passes so text tables columns alias_to_table schema =
     foldl (schema_bare schema)
       (foldl (schema_table schema) (foldl (schema_alias schema) text alias_to_table) (so tables),
        [])
       (sorted_len_desc (so columns))"

fun schema_replacements ::
  "(string list \<Rightarrow> string list) \<Rightarrow> string \<Rightarrow> string list \<Rightarrow> string list \<Rightarrow>
   (string \<times> string) list option \<Rightarrow> schema option \<Rightarrow> string \<times> string list" where
  "schema_replacements so text tables columns (Some alias_to_table) (Some schema) =
     (if schema = [] then (text, [])
      else schema_passes so text tables columns alias_to_table schema)"
| "schema_replacements so text tables columns alias_to_table schema = (text, [])"

text \<open>The tests that exempt a column from the generic rewrite (lines 341 to 352).\<close>

definition column_is_reserved :: "string \<Rightarrow> bool" where
  "column_is_reserved col =
     (upper col \<in> set [''NUM'', ''STR'', ''DATE'', ''TABLE_NAME'', ''COL_NAME''] \<or>
      col \<in> set [''num'', ''string'', ''date'', ''boolean''] \<or>
      re_match True (numbered_name ''table_alias_placeholder'') col \<or>
      re_match True (numbered_name ''col_alias_placeholder'') col \<or>
      re_match True (numbered_name ''table_alias'') col \<or>
      re_match True (numbered_name ''column_alias'') col)"

definition generic_column ::
  "(string \<times> string) list \<Rightarrow> bool \<Rightarrow> string list \<Rightarrow> string \<Rightarrow> string \<Rightarrow> string" where
  "generic_column col_alias_map has_schema cols_replaced_by_schema out col =
     (if column_is_reserved col then out
      else if col \<in> fst ` set col_alias_map then out
      else if has_schema \<and> col \<in> set cols_replaced_by_schema then out
      else sub_word col ''col_name'' (sub_dot_word col ''.col_name'' out))"

text \<open>\<^verbatim>\<open>table_alias_map[alias]\<close> for a key of the dictionary.\<close>

definition lookup :: "(string \<times> string) list \<Rightarrow> string \<Rightarrow> string" where
  "lookup d k = (case map_of d k of None \<Rightarrow> [] | Some v \<Rightarrow> v)"

text \<open>
  The standard replacements (lines 332 to 354): the bodies of the loops over the aliases
  of a map and over the tables, then the four loops, applied to the text and
  \<open>cols_replaced_by_schema\<close> as the schema branch leaves them.
\<close>

definition alias_sub :: "(string \<times> string) list \<Rightarrow> string \<Rightarrow> string \<Rightarrow> string" where
  "alias_sub alias_map out alias = sub_word alias (lookup alias_map alias) out"

definition table_sub :: "(string \<times> string) list \<Rightarrow> string \<Rightarrow> string \<Rightarrow> string" where
  "table_sub table_alias_map out t =
     (if t \<in> fst ` set table_alias_map then out else sub_word t ''table_name'' out)"

fun standard_replacements ::
  "(string list \<Rightarrow> string list) \<Rightarrow> string list \<Rightarrow> (string \<times> string) list \<Rightarrow>
   (string \<times> string) list \<Rightarrow> string list \<Rightarrow> bool \<Rightarrow> string \<times> string list \<Rightarrow> string" where
  "standard_replacements so tables table_alias_map col_alias_map columns has_schema
     (out, cols_replaced_by_schema) =
     foldl (generic_column col_alias_map has_schema cols_replaced_by_schema)
       (foldl (table_sub table_alias_map)
          (foldl (alias_sub col_alias_map)
             (foldl (alias_sub table_alias_map) out (sorted_len_desc (map fst table_alias_map)))
             (sorted_len_desc (map fst col_alias_map)))
          (sorted_len_desc (so tables)))
       (sorted_len_desc (so columns))"

text \<open>
  \<^verbatim>\<open>schema\<close> is truthy when it is given and not empty.
\<close>

definition truthy :: "'a list option \<Rightarrow> bool" where
  "truthy d = (case d of None \<Rightarrow> False | Some xs \<Rightarrow> xs \<noteq> [])"

definition apply_identifier_replacements ::
  "(string list \<Rightarrow> string list) \<Rightarrow> string \<Rightarrow> string list \<Rightarrow> (string \<times> string) list \<Rightarrow>
   (string \<times> string) list \<Rightarrow> string list \<Rightarrow> (string \<times> string) list option \<Rightarrow>
   schema option \<Rightarrow> string" where
  "apply_identifier_replacements so text tables table_alias_map col_alias_map columns
     alias_to_table schema =
     standard_replacements so tables table_alias_map col_alias_map columns (truthy schema)
       (schema_replacements so text tables columns alias_to_table schema)"

section \<open>\<^verbatim>\<open>canonicalize_sql\<close> and \<^verbatim>\<open>canonicalize_sql_bird\<close>\<close>

text \<open>\<^verbatim>\<open>not s or not s.strip()\<close>\<close>

definition blank :: "string \<Rightarrow> bool" where
  "blank s = (s = [] \<or> strip s = [])"

text \<open>\<^verbatim>\<open>"".join(t for is_c, t in segments if not is_c)\<close>\<close>

definition non_comment_text :: "(bool \<times> string) list \<Rightarrow> string" where
  "non_comment_text segments = concat (map snd (filter (\<lambda>(is_c, t). \<not> is_c) segments))"

text \<open>
  The assembling loop shared by both functions (lines 375 to 391): comments are appended
  to \<open>result\<close> as they are, the other segments after \<open>f\<close> has rewritten them.
\<close>

fun assemble :: "(string \<Rightarrow> string) \<Rightarrow> (bool \<times> string) list \<Rightarrow> string list" where
  "assemble f [] = []"
| "assemble f ((is_comment, text) # segments) =
     (if is_comment then text else f text) # assemble f segments"

text \<open>
  What \<^verbatim>\<open>canonicalize_sql\<close> does to the text of a segment that is not a comment
  (lines 380 to 390), given the result of \<^verbatim>\<open>_collect_identifiers_regex\<close>.
\<close>

fun rewrite_segment ::
  "(string list \<Rightarrow> string list) \<Rightarrow> schema option \<Rightarrow> idents \<Rightarrow> string \<Rightarrow> string" where
  "rewrite_segment so schema (tables, table_alias_map, col_alias_map, columns, alias_to_table) text =
     apply_identifier_replacements so (replace_literals text) tables table_alias_map
       col_alias_map columns (Some alias_to_table) schema"

definition canonicalize_sql ::
  "(string list \<Rightarrow> string list) \<Rightarrow> string \<Rightarrow> schema option \<Rightarrow> string" where
  "canonicalize_sql so sql schema =
     (if blank sql then sql
      else
        let segments = split_comments sql in
        if strip (non_comment_text segments) = [] then sql
        else
          concat (assemble
            (rewrite_segment so schema
               (collect_identifiers_regex (replace_literals (non_comment_text segments)) False))
            segments))"

text \<open>
  \<^verbatim>\<open>(schema_by_db or {}).get(db_id) or {}\<close>, with \<open>schema_by_db\<close> a dictionary from
  database names to schemas, or \<^verbatim>\<open>None\<close>.
\<close>

definition schema_for :: "(string \<times> schema) list option \<Rightarrow> string \<Rightarrow> schema" where
  "schema_for schema_by_db db_id =
     (case schema_by_db of
        None \<Rightarrow> []
      | Some d \<Rightarrow> (case map_of d db_id of None \<Rightarrow> [] | Some sch \<Rightarrow> sch))"

text \<open>
  What \<^verbatim>\<open>canonicalize_sql_bird\<close> does to the text of a segment that is not a comment
  (lines 413 to 434), given the schema of the database and the result of
  \<^verbatim>\<open>_collect_identifiers_regex\<close>.
\<close>

fun rewrite_segment_bird ::
  "(string list \<Rightarrow> string list) \<Rightarrow> schema \<Rightarrow> idents \<Rightarrow> string \<Rightarrow> string" where
  "rewrite_segment_bird so schema (tables, table_alias_map, col_alias_map, columns, alias_to_table)
     text =
     apply_identifier_replacements so
       (replace_literals_bird text (build_boolean_col_refs so schema tables alias_to_table))
       tables
       (numbered ''table_alias'' (map fst table_alias_map))
       (numbered ''column_alias'' (map fst col_alias_map))
       columns (Some alias_to_table) None"

definition canonicalize_sql_bird ::
  "(string list \<Rightarrow> string list) \<Rightarrow> string \<Rightarrow> string \<Rightarrow> (string \<times> schema) list option \<Rightarrow> string" where
  "canonicalize_sql_bird so sql db_id schema_by_db =
     (if blank sql then sql
      else
        let segments = split_comments sql in
        if strip (non_comment_text segments) = [] then sql
        else
          concat (assemble
            (rewrite_segment_bird so (schema_for schema_by_db db_id)
               (collect_identifiers_regex (non_comment_text segments) True))
            segments))"


(*DEFS-END*)

section \<open>The segmenter is lossless\<close>

lemma slice_append: "a \<le> b \<Longrightarrow> take a s @ slice s a b = take b s"
proof -
  assume "a \<le> b"
  then have "take a s = take a (take b s)" by (simp add: min_def)
  then show ?thesis unfolding slice_def by (metis append_take_drop_id)
qed

lemma scan_line_le: "i \<le> length sql \<Longrightarrow> scan_line sql i \<le> length sql"
proof (induction sql i rule: scan_line.induct)
  case (1 sql i)
  show ?case
  proof (cases "i < length sql \<and> sql ! i \<noteq> nl")
    case True
    with 1 have "scan_line sql (i + 1) \<le> length sql" by simp
    moreover from True have "scan_line sql i = scan_line sql (i + 1)"
      by (subst scan_line.simps) simp
    ultimately show ?thesis by linarith
  next
    case False
    then have "scan_line sql i = i" by (subst scan_line.simps) auto
    with 1 show ?thesis by linarith
  qed
qed

lemma line_end_le: "i + 2 \<le> length sql \<Longrightarrow> line_end sql i \<le> length sql"
  using scan_line_le [of "i + 2" sql] unfolding line_end_def Let_def by (simp split: if_split)

lemma block_end_le: "block_end sql i \<le> length sql"
  unfolding block_end_def Let_def by auto

lemma flush_code_concat:
  "cs \<le> i \<Longrightarrow> concat (map snd segs) = take cs sql \<Longrightarrow>
   concat (map snd (flush_code sql cs i segs)) = take i sql"
  unfolding flush_code_def using slice_append [of cs i sql]
  by (cases "cs < i") auto

lemma comment_concat:
  "cs \<le> i \<Longrightarrow> i \<le> e \<Longrightarrow> concat (map snd segs) = take cs sql \<Longrightarrow>
   concat (map snd (flush_code sql cs i segs @ [(True, slice sql i e)])) = take e sql"
  using flush_code_concat [of cs i segs sql] slice_append [of i e sql] by simp

lemma split_step_inv:
  assumes "seg_inv sql st" and "fst st < length sql"
  shows "seg_inv sql (split_step sql st)"
proof -
  obtain i in_single in_double cs segs
    where st: "st = (i, in_single, in_double, cs, segs)"
    by (cases st) auto
  from assms have inv: "cs \<le> i" "cs \<le> length sql" "concat (map snd segs) = take cs sql"
    and i: "i < length sql"
    by (simp_all add: st seg_inv_def)
  have le: "i \<le> line_end sql i" using line_end_gt [of i sql] by simp
  have be: "i + 2 \<le> length sql \<Longrightarrow> i \<le> block_end sql i"
    using block_end_gt [of i sql] by simp
  have lc: "concat (map snd (flush_code sql cs i segs @ [(True, slice sql i (line_end sql i))]))
      = take (line_end sql i) sql"
    using comment_concat [OF inv(1) le inv(3)] .
  have bc: "i + 2 \<le> length sql \<Longrightarrow>
      concat (map snd (flush_code sql cs i segs @ [(True, slice sql i (block_end sql i))]))
      = take (block_end sql i) sql"
    using comment_concat [OF inv(1) be inv(3)] .
  show ?thesis
    unfolding st split_step_def seg_inv_def
    using inv lc bc line_end_le [of i sql] block_end_le [of sql i]
    by (simp del: One_nat_def map_append concat_append)
qed

lemma split_loop_inv: "seg_inv sql st \<Longrightarrow> seg_inv sql (split_loop sql st)"
proof (induction sql st rule: split_loop.induct)
  case (1 sql st)
  show ?case
  proof (cases "fst st < length sql")
    case True
    then have "seg_inv sql (split_step sql st)" using 1(2) by (simp add: split_step_inv)
    with 1(1) True have "seg_inv sql (split_loop sql (split_step sql st))" by blast
    with True show ?thesis by (subst split_loop.simps) simp
  next
    case False
    with 1(2) show ?thesis by (subst split_loop.simps) simp
  qed
qed

lemma split_comments_concat: "concat (map snd (split_comments sql)) = sql"
proof -
  have "seg_inv sql (0, False, False, 0, [])" by (simp add: seg_inv_def)
  then have inv: "seg_inv sql (split_loop sql (0, False, False, 0, []))"
    by (rule split_loop_inv)
  obtain i in_single in_double cs segs
    where r: "split_loop sql (0, False, False, 0, []) = (i, in_single, in_double, cs, segs)"
    by (cases "split_loop sql (0, False, False, 0, [])") auto
  from inv have cs: "cs \<le> length sql" and c: "concat (map snd segs) = take cs sql"
    by (simp_all add: r seg_inv_def)
  show ?thesis
  proof (cases "cs < length sql")
    case True
    then show ?thesis
      using slice_append [of cs "length sql" sql] c
      by (simp add: split_comments_def r)
  next
    case False
    with cs have "cs = length sql" by simp
    with c show ?thesis by (simp add: split_comments_def r)
  qed
qed

text \<open>
  Claim C1.  For every input string, the texts of the spans that \<^verbatim>\<open>_split_comments\<close>
  returns, concatenated in order, are exactly the input: the segmentation loses nothing
  and adds nothing.  (\<^const>\<open>split_loop\<close> is a total function, so the segmenter returns
  on every input.)
\<close>

theorem split_comments_lossless: "concat (map snd (split_comments sql)) = sql"
  by (rule split_comments_concat)

text \<open>
  Claim C4.  Inside an open single-quoted literal the first quote of a doubled quote is
  passed over because of the look-ahead, but the scanner then advances by one character
  only, so the second quote of the pair is examined with the character after the pair as
  its look-ahead and closes the literal.  In \<^verbatim>\<open>'a'' -- x'\<close> the whole text is one
  literal in SQL, yet the scanner is outside the literal after the pair and classifies
  \<^verbatim>\<open>-- x'\<close> as a line comment.
\<close>

theorem doubled_quote_closes_literal:
  "split_loop ([sq] @ ''a'' @ [sq, sq]) (0, False, False, 0, []) = (4, False, False, 0, []) \<and>
   split_comments ([sq] @ ''a'' @ [sq, sq] @ '' -- x'' @ [sq]) =
     [(False, [sq] @ ''a'' @ [sq, sq] @ '' ''), (True, ''-- x'' @ [sq])]"
  by code_simp

end
